theory Spec2Isabelle
  imports Complex_Main
begin

section \<open>JavaScript values\<close>

text \<open>
  The program (\<^verbatim>\<open>src/app.js\<close>) works on values produced by \<^verbatim>\<open>JSON.parse\<close>. A value is
  \<^verbatim>\<open>undefined\<close>, \<^verbatim>\<open>null\<close>, a boolean, a number, a string, an array or an object. Objects are
  association lists; the first binding of a key is the one that counts. Strings are lists of
  code units below 256. Numbers are integers: a number with a fraction or an exponent, or beyond
  \<open>2^53\<close>, is IEEE-754 arithmetic and stays outside this model. \<open>JFun\<close> stands for a built-in
  function of the host, which a script can only reach through the prototype chain.
\<close>

datatype jv =
    JUndefined
  | JNull
  | JBool bool
  | JNum int
  | JStr string
  | JArr "jv list"
  | JObj "(string \<times> jv) list"
  | JFun string

datatype error = TypeError

datatype jstype = Ty_undefined | Ty_object | Ty_boolean | Ty_number | Ty_string | Ty_function

fun typeof :: "jv \<Rightarrow> jstype" where
  "typeof JUndefined = Ty_undefined"
| "typeof JNull = Ty_object"
| "typeof (JBool b) = Ty_boolean"
| "typeof (JNum n) = Ty_number"
| "typeof (JStr s) = Ty_string"
| "typeof (JArr xs) = Ty_object"
| "typeof (JObj kvs) = Ty_object"
| "typeof (JFun f) = Ty_function"

text \<open>\<^verbatim>\<open>Boolean(v)\<close>, the test of \<^verbatim>\<open>if (v)\<close>, \<^verbatim>\<open>!v\<close>, \<^verbatim>\<open>v && ...\<close> and \<^verbatim>\<open>v || ...\<close>.\<close>

fun truthy :: "jv \<Rightarrow> bool" where
  "truthy JUndefined = False"
| "truthy JNull = False"
| "truthy (JBool b) = b"
| "truthy (JNum n) = (n \<noteq> 0)"
| "truthy (JStr s) = (s \<noteq> [])"
| "truthy (JArr xs) = True"
| "truthy (JObj kvs) = True"
| "truthy (JFun f) = True"

text \<open>\<^verbatim>\<open>v == null\<close>: true of \<^verbatim>\<open>null\<close> and \<^verbatim>\<open>undefined\<close> only.\<close>

fun nullish :: "jv \<Rightarrow> bool" where
  "nullish JUndefined = True"
| "nullish JNull = True"
| "nullish v = False"

fun isArray :: "jv \<Rightarrow> bool" where
  "isArray (JArr xs) = True"
| "isArray v = False"

text \<open>The recurring guard \<^verbatim>\<open>x && typeof x === 'object'\<close>: objects and arrays, not \<^verbatim>\<open>null\<close>.\<close>

definition isObjectLike :: "jv \<Rightarrow> bool" where
  "isObjectLike x = (truthy x \<and> typeof x = Ty_object)"

text \<open>\<^verbatim>\<open>x && typeof x === 'object' && !Array.isArray(x)\<close>: a string-keyed mapping.\<close>

definition isMapping :: "jv \<Rightarrow> bool" where
  "isMapping x = (truthy x \<and> typeof x = Ty_object \<and> \<not> isArray x)"

subsection \<open>Strings\<close>

text \<open>The digits \<^verbatim>\<open>0\<close> to \<^verbatim>\<open>9\<close> are the code units 48 to 57.\<close>

definition is_digit :: "char \<Rightarrow> bool" where
  "is_digit c = (48 \<le> (of_char c :: nat) \<and> (of_char c :: nat) \<le> 57)"

definition digit_char :: "nat \<Rightarrow> char" where
  "digit_char d = char_of (48 + d mod 10)"

definition digit_val :: "char \<Rightarrow> nat" where
  "digit_val c = of_char c - 48"

text \<open>The decimal numeral of a natural number, as \<^verbatim>\<open>String(n)\<close> prints it.\<close>

fun dec :: "nat \<Rightarrow> string" where
  "dec n = (if n < 10 then [digit_char n] else dec (n div 10) @ [digit_char n])"

declare dec.simps [simp del]

text \<open>\<^verbatim>\<open>Number(ds)\<close> for a string of decimal digits.\<close>

definition num_of_digits :: "string \<Rightarrow> nat" where
  "num_of_digits ds = foldl (\<lambda>a c. 10 * a + digit_val c) 0 ds"

definition show_int :: "int \<Rightarrow> string" where
  "show_int i = (if i < 0 then CHR ''-'' # dec (nat (- i)) else dec (nat i))"

text \<open>
  White space of \<^verbatim>\<open>String.prototype.trim\<close> among the code units below 256: tab, line feed,
  vertical tab, form feed, carriage return, space and no-break space.
\<close>

definition is_ws :: "char \<Rightarrow> bool" where
  "is_ws c = (of_char c \<in> {9, 10, 11, 12, 13, 32, 160 :: nat})"

definition trim :: "string \<Rightarrow> string" where
  "trim s = rev (dropWhile is_ws (rev (dropWhile is_ws s)))"

text \<open>\<^verbatim>\<open>String.prototype.toLowerCase\<close> on code units below 256.\<close>

definition lower_char :: "char \<Rightarrow> char" where
  "lower_char c =
     (let n = (of_char c :: nat) in
      if (65 \<le> n \<and> n \<le> 90) \<or> (192 \<le> n \<and> n \<le> 222 \<and> n \<noteq> 215) then char_of (n + 32) else c)"

definition toLowerCase :: "string \<Rightarrow> string" where
  "toLowerCase s = map lower_char s"

text \<open>\<^verbatim>\<open>s.includes(t)\<close>: \<open>t\<close> occurs in \<open>s\<close> as a contiguous substring.\<close>

fun str_includes :: "string \<Rightarrow> string \<Rightarrow> bool" where
  "str_includes [] t = (t = [])"
| "str_includes (c # cs) t = (take (length t) (c # cs) = t \<or> str_includes cs t)"

subsection \<open>Conversion to string\<close>

text \<open>
  \<^verbatim>\<open>String(v)\<close>. An array prints its elements joined by commas, \<^verbatim>\<open>null\<close> and \<^verbatim>\<open>undefined\<close>
  elements as nothing. An object prints as \<^verbatim>\<open>[object Object]\<close> through the inherited
  \<^verbatim>\<open>toString\<close>; an object that has its own key \<^verbatim>\<open>toString\<close> bound to something that is not a
  function has no primitive value, and the conversion throws a TypeError.
\<close>

fun to_string :: "jv \<Rightarrow> error + string"
  and join_elems :: "jv list \<Rightarrow> error + string"
where
  "to_string JUndefined = Inr ''undefined''"
| "to_string JNull = Inr ''null''"
| "to_string (JBool b) = Inr (if b then ''true'' else ''false'')"
| "to_string (JNum n) = Inr (show_int n)"
| "to_string (JStr s) = Inr s"
| "to_string (JFun f) = Inr (''function '' @ f @ ''() { [native code] }'')"
| "to_string (JArr xs) = join_elems xs"
| "to_string (JObj kvs) =
     (case map_of kvs ''toString'' of
        None \<Rightarrow> Inr ''[object Object]''
      | Some (JFun f) \<Rightarrow> Inr ''[object Object]''
      | Some v \<Rightarrow> Inl TypeError)"
| "join_elems [] = Inr []"
| "join_elems (x # xs) =
     (case (if nullish x then Inr [] else to_string x) of
        Inl e \<Rightarrow> Inl e
      | Inr s \<Rightarrow>
          (if xs = [] then Inr s
           else (case join_elems xs of Inl e \<Rightarrow> Inl e | Inr r \<Rightarrow> Inr (s @ '','' @ r))))"

definition bindE :: "error + 'a \<Rightarrow> ('a \<Rightarrow> error + 'b) \<Rightarrow> error + 'b" where
  "bindE m f = (case m of Inl e \<Rightarrow> Inl e | Inr v \<Rightarrow> f v)"

subsection \<open>Property access\<close>

text \<open>
  An array owns its indices, written as decimal numerals without leading zeros, and
  \<^verbatim>\<open>length\<close>; a JSON object owns its keys.
\<close>

definition is_index_name :: "string \<Rightarrow> bool" where
  "is_index_name k = (k \<noteq> [] \<and> list_all is_digit k \<and> (hd k \<noteq> CHR ''0'' \<or> k = ''0''))"

definition array_own :: "jv list \<Rightarrow> string \<Rightarrow> jv option" where
  "array_own xs k =
     (if is_index_name k \<and> num_of_digits k < length xs then Some (xs ! num_of_digits k)
      else if k = ''length'' then Some (JNum (int (length xs)))
      else None)"

text \<open>
  \<^verbatim>\<open>Object.prototype.hasOwnProperty.call(obj, k)\<close>. The program calls it on objects and arrays
  only, behind a guard.
\<close>

fun hasOwnProperty :: "jv \<Rightarrow> string \<Rightarrow> bool" where
  "hasOwnProperty (JObj kvs) k = (map_of kvs k \<noteq> None)"
| "hasOwnProperty (JArr xs) k = (array_own xs k \<noteq> None)"
| "hasOwnProperty v k = False"

text \<open>
  \<^verbatim>\<open>v.name\<close> for a name written in the program text (\<^verbatim>\<open>layout\<close>, \<^verbatim>\<open>fields\<close>, \<^verbatim>\<open>path\<close>,
  \<^verbatim>\<open>match\<close>, \<^verbatim>\<open>items\<close>, ...), on a receiver that is not \<^verbatim>\<open>null\<close> or \<^verbatim>\<open>undefined\<close>. None of
  these names is a member of a built-in prototype, so the result is the own property or
  \<^verbatim>\<open>undefined\<close>.
\<close>

fun own_prop :: "jv \<Rightarrow> string \<Rightarrow> jv" where
  "own_prop (JObj kvs) k = (case map_of kvs k of Some v \<Rightarrow> v | None \<Rightarrow> JUndefined)"
| "own_prop (JArr xs) k = (case array_own xs k of Some v \<Rightarrow> v | None \<Rightarrow> JUndefined)"
| "own_prop v k = JUndefined"

text \<open>
  \<^verbatim>\<open>v[k]\<close> for a name \<open>k\<close> that comes from the data (a path segment, a \<^verbatim>\<open>typeField\<close>). Reading
  a property of \<^verbatim>\<open>null\<close> or \<^verbatim>\<open>undefined\<close> throws a TypeError. A name that the receiver does
  not own is looked up in the prototype chain (\<^verbatim>\<open>constructor\<close>, \<^verbatim>\<open>toString\<close>, ...): what the
  chain holds depends on the host, so it is a parameter \<open>h\<close>, and every theorem holds for
  every host.
\<close>

type_synonym host = "jv \<Rightarrow> string \<Rightarrow> jv"

fun member :: "host \<Rightarrow> jv \<Rightarrow> string \<Rightarrow> error + jv" where
  "member h JUndefined k = Inl TypeError"
| "member h JNull k = Inl TypeError"
| "member h (JObj kvs) k = Inr (case map_of kvs k of Some v \<Rightarrow> v | None \<Rightarrow> h (JObj kvs) k)"
| "member h (JArr xs) k = Inr (case array_own xs k of Some v \<Rightarrow> v | None \<Rightarrow> h (JArr xs) k)"
| "member h v k = Inr (h v k)"

text \<open>A host whose prototypes hold nothing.\<close>

definition bare :: host where
  "bare v k = JUndefined"

section \<open>Path resolver\<close>

text \<open>
  \<^verbatim>\<open>getValueAtPath\<close> (app.js 1683-1715) tokenizes the path with the regular expression
  \<^verbatim>\<open>/[^.[\]]+|\[(\d+)\]/g\<close>: at each position, a maximal run of characters other than
  \<^verbatim>\<open>.\<close>, \<^verbatim>\<open>[\<close>, \<^verbatim>\<open>]\<close> is a name; \<^verbatim>\<open>[\<close>, digits, \<^verbatim>\<open>]\<close> is an index; a character where
  neither alternative matches is skipped.
\<close>

datatype token = TName string | TIndex nat

definition is_name_char :: "char \<Rightarrow> bool" where
  "is_name_char c = (c \<noteq> CHR ''.'' \<and> c \<noteq> CHR ''['' \<and> c \<noteq> CHR '']'')"

text \<open>The rest of \<^verbatim>\<open>\[(\d+)\]\<close> after the opening bracket: the number and what follows.\<close>

definition match_index :: "string \<Rightarrow> (nat \<times> string) option" where
  "match_index cs =
     (let ds = takeWhile is_digit cs; rest = dropWhile is_digit cs in
      if ds \<noteq> [] \<and> rest \<noteq> [] \<and> hd rest = CHR '']''
      then Some (num_of_digits ds, tl rest) else None)"

function tokenize :: "string \<Rightarrow> token list" where
  "tokenize [] = []"
| "tokenize (c # cs) =
     (if is_name_char c
      then TName (c # takeWhile is_name_char cs) # tokenize (dropWhile is_name_char cs)
      else if c = CHR ''[''
      then (case match_index cs of
              Some (n, rest) \<Rightarrow> TIndex n # tokenize rest
            | None \<Rightarrow> tokenize cs)
      else tokenize cs)"
  by pat_completeness auto
termination
  by (relation "measure length")
     (auto simp: less_Suc_eq_le length_dropWhile_le match_index_def Let_def split: if_splits
           intro: order_trans [OF diff_le_self length_dropWhile_le])

declare tokenize.simps(2) [simp del]

text \<open>\<^verbatim>\<open>cur[t]\<close> for a token: an index reads the array element, or \<^verbatim>\<open>undefined\<close> past the end.\<close>

fun member_at :: "host \<Rightarrow> jv \<Rightarrow> token \<Rightarrow> error + jv" where
  "member_at h (JArr xs) (TIndex n) = Inr (if n < length xs then xs ! n else JUndefined)"
| "member_at h v (TIndex n) = member h v (dec n)"
| "member_at h v (TName k) = member h v k"

text \<open>The loop \<^verbatim>\<open>for (const t of tokens)\<close>.\<close>

fun getValueAtPath_loop :: "host \<Rightarrow> jv \<Rightarrow> token list \<Rightarrow> error + jv" where
  "getValueAtPath_loop h cur [] = Inr cur"
| "getValueAtPath_loop h cur (t # ts) =
     (if nullish cur then Inr JUndefined
      else (case t of
              TIndex n \<Rightarrow>
                if \<not> isArray cur then Inr JUndefined
                else (case member_at h cur t of
                        Inl e \<Rightarrow> Inl e
                      | Inr v \<Rightarrow> getValueAtPath_loop h v ts)
            | TName k \<Rightarrow>
                if typeof cur \<noteq> Ty_object then Inr JUndefined
                else (case member_at h cur t of
                        Inl e \<Rightarrow> Inl e
                      | Inr v \<Rightarrow> getValueAtPath_loop h v ts)))"

text \<open>The path is a string, so of the first guard only \<^verbatim>\<open>!path\<close> (the empty string) is left.\<close>

definition getValueAtPath :: "host \<Rightarrow> jv \<Rightarrow> string \<Rightarrow> error + jv" where
  "getValueAtPath h obj path =
     (if path = [] then Inr JUndefined
      else if nullish obj then Inr JUndefined
      else getValueAtPath_loop h obj (tokenize path))"

section \<open>Record extractor\<close>

text \<open>\<^verbatim>\<open>extractRecords\<close> (app.js 1019-1064).\<close>

record extracted =
  records :: "jv list"
  sourcePath :: "string option"

definition candidateKeys :: "string list" where
  "candidateKeys =
     [''items'', ''results'', ''data'', ''value'', ''records'', ''issues'', ''rfis'',
      ''submittals'', ''Issues'', ''RFIs'', ''Submittals'', ''Items'', ''Results'', ''Data'',
      ''Value'', ''Records'']"

text \<open>The loop \<^verbatim>\<open>for (const key of candidateKeys)\<close>: the first key whose value is an array.\<close>

fun firstArrayKey :: "jv \<Rightarrow> string list \<Rightarrow> (string \<times> jv list) option" where
  "firstArrayKey json [] = None"
| "firstArrayKey json (key # keys) =
     (case own_prop json key of
        JArr arr \<Rightarrow> Some (key, arr)
      | _ \<Rightarrow> firstArrayKey json keys)"

definition extractRecords :: "jv \<Rightarrow> extracted" where
  "extractRecords json =
     (case json of
        JArr xs \<Rightarrow> \<lparr>records = filter isObjectLike xs, sourcePath = Some ''$''\<rparr>
      | _ \<Rightarrow>
          if isObjectLike json then
            (case firstArrayKey json candidateKeys of
               Some (key, arr) \<Rightarrow>
                 \<lparr>records = filter isObjectLike arr, sourcePath = Some (''$.'' @ key)\<rparr>
             | None \<Rightarrow> \<lparr>records = [json], sourcePath = Some ''$''\<rparr>)
          else \<lparr>records = [], sourcePath = None\<rparr>)"

section \<open>Type classifier\<close>

datatype RecordType = Issue | RFI | Submittal | Generic

text \<open>\<^verbatim>\<open>firstString\<close> (app.js 1394-1406); \<open>None\<close> is \<^verbatim>\<open>null\<close>.\<close>

fun firstString :: "jv \<Rightarrow> string list \<Rightarrow> string option" where
  "firstString obj [] = None"
| "firstString obj (k # ks) =
     (case own_prop obj k of
        JStr s \<Rightarrow> if isObjectLike obj \<and> trim s \<noteq> [] then Some (trim s) else firstString obj ks
      | _ \<Rightarrow> firstString obj ks)"

text \<open>\<^verbatim>\<open>hasAny\<close> (app.js 1413-1415).\<close>

definition hasAny :: "jv \<Rightarrow> string list \<Rightarrow> bool" where
  "hasAny obj keys = list_ex (hasOwnProperty obj) keys"

text \<open>\<^verbatim>\<open>detectRecordTypeFromObject\<close> (app.js 1312-1386).\<close>

definition detectRecordTypeFromObject :: "jv \<Rightarrow> RecordType" where
  "detectRecordTypeFromObject obj =
     (if \<not> truthy obj \<or> typeof obj \<noteq> Ty_object \<or> isArray obj then Generic
      else
        let hint = firstString obj
              [''type'', ''Type'', ''entity'', ''Entity'', ''resource'', ''Resource'',
               ''recordType'', ''RecordType''];
            hinted = (case hint of Some s \<Rightarrow> s \<noteq> [] | None \<Rightarrow> False);
            norm = (case hint of Some s \<Rightarrow> toLowerCase s | None \<Rightarrow> []);
            has = hasOwnProperty obj;
            issueSignals =
              ((has ''Title'' \<or> has ''title'') \<and>
               (has ''Status'' \<or> has ''status'') \<and>
               (has ''Priority'' \<or> has ''priority'') \<and>
               (has ''AssignedTo'' \<or> has ''assignedTo'' \<or> has ''Author'' \<or> has ''author''));
            issueExtraSignals =
              (has ''Viewpoints'' \<or> has ''viewpoints'' \<or> has ''Disciplines'' \<or>
               has ''disciplines'' \<or> has ''History'' \<or> has ''history'');
            rfiSignals =
              (hasAny obj [''Question'', ''question'', ''RfiQuestion'', ''rfiQuestion''] \<or>
               hasAny obj [''Answer'', ''answer'', ''Response'', ''response''] \<or>
               (hasAny obj [''BallInCourt'', ''ballInCourt'', ''DueDate'', ''dueDate''] \<and>
                hasAny obj [''RfiNumber'', ''rfiNumber'', ''RfiId'', ''rfiId'']));
            submittalSignals =
              (hasAny obj [''SpecSection'', ''specSection'', ''SpecificationSection''] \<or>
               hasAny obj [''Revision'', ''revision'', ''RevisionNumber''] \<or>
               hasAny obj [''SubmittalNumber'', ''submittalNumber'', ''SubmittalId'',
                           ''submittalId''] \<or>
               (hasAny obj [''ReviewStatus'', ''reviewStatus'', ''ReviewDate'', ''reviewDate''] \<and>
                hasAny obj [''DueDate'', ''dueDate'']))
        in
          if hinted \<and> str_includes norm ''issue'' then Issue
          else if hinted \<and> (norm = ''rfi'' \<or> str_includes norm ''request for information'')
          then RFI
          else if hinted \<and> str_includes norm ''submittal'' then Submittal
          else if issueSignals \<and> issueExtraSignals then Issue
          else if rfiSignals then RFI
          else if submittalSignals then Submittal
          else Generic)"

text \<open>
  \<^verbatim>\<open>detectRecordType\<close> (app.js 989-1002). The \<^verbatim>\<open>Set\<close> of the records' types is the list of
  types without repetitions.
\<close>

definition detectRecordType :: "jv \<Rightarrow> RecordType" where
  "detectRecordType json =
     (let recs = records (extractRecords json) in
      if recs = [] then Generic
      else
        let types = remdups (map detectRecordTypeFromObject recs) in
        if length types = 1 then hd types else Generic)"

section \<open>Dataset detection\<close>

text \<open>\<^verbatim>\<open>Object.keys(o)\<close> of a JSON object: its keys, each once.\<close>

fun object_keys :: "jv \<Rightarrow> string list" where
  "object_keys (JObj kvs) = remdups (map fst kvs)"
| "object_keys v = []"

text \<open>
  \<^verbatim>\<open>isLargeFlatArrayDataset\<close> (app.js 1070-1114). The three ratios are quotients of counts,
  compared with 0.6 and 0.25; they are computed here over the rationals (with at most 25 sampled
  rows, and fewer than \<open>2^50\<close> keys, the floating-point comparisons of the program give the
  same answers).
\<close>

definition isLargeFlatArrayDataset :: "jv \<Rightarrow> bool" where
  "isLargeFlatArrayDataset json =
     (case json of
        JArr xs \<Rightarrow>
          if length xs < 80 then False
          else
            let sample = take 25 (filter isMapping xs) in
            if length sample < 10 then False
            else
              let keySets = map object_keys sample;
                  allKeys = remdups (concat keySets) in
              if length allKeys = 0 then False
              else
                let commonCount =
                      length (filter (\<lambda>k.
                        (of_nat (length (filter (\<lambda>s. k \<in> set s) keySets)) :: rat)
                          / of_nat (length keySets) \<ge> 6 / 10) allKeys);
                    commonRatio = (of_nat commonCount :: rat) / of_nat (length allKeys);
                    totalVals = sum_list (map (\<lambda>ob. length (object_keys ob)) sample);
                    nestedVals =
                      sum_list (map (\<lambda>ob.
                        length (filter (\<lambda>k. isObjectLike (own_prop ob k)) (object_keys ob)))
                        sample);
                    nestedRatio =
                      (if totalVals \<noteq> 0 then (of_nat nestedVals :: rat) / of_nat totalVals
                       else 1)
                in commonRatio \<ge> 25 / 100 \<and> nestedRatio \<le> 25 / 100
      | _ \<Rightarrow> False)"

section \<open>Templates\<close>

subsection \<open>Validation\<close>

text \<open>\<^verbatim>\<open>validateTemplate\<close> (app.js 3591-3667) returns \<^verbatim>\<open>{ ok, error }\<close>.\<close>

record validation =
  ok :: bool
  error :: "string option"

definition invalid :: "string \<Rightarrow> validation" where
  "invalid msg = \<lparr>ok = False, error = Some msg\<rparr>"

definition valid :: validation where
  "valid = \<lparr>ok = True, error = None\<rparr>"

text \<open>\<^verbatim>\<open>typeof v !== 'string' || !v.trim()\<close>.\<close>

fun notNonEmptyString :: "jv \<Rightarrow> bool" where
  "notNonEmptyString (JStr s) = (trim s = [])"
| "notNonEmptyString v = True"

text \<open>\<^verbatim>\<open>!v || typeof v !== 'object' || Array.isArray(v)\<close>.\<close>

definition notPlainObject :: "jv \<Rightarrow> bool" where
  "notPlainObject v = (\<not> truthy v \<or> typeof v \<noteq> Ty_object \<or> isArray v)"

text \<open>The loop over \<^verbatim>\<open>section.fields.entries()\<close>; the result is the first error message.\<close>

fun validateFields :: "nat \<Rightarrow> nat \<Rightarrow> jv list \<Rightarrow> string option" where
  "validateFields si fi [] = None"
| "validateFields si fi (f # fs) =
     (if notPlainObject f
      then Some (''layout['' @ dec si @ ''].fields['' @ dec fi @ ''] must be an object.'')
      else if notNonEmptyString (own_prop f ''path'')
      then Some (''layout['' @ dec si @ ''].fields['' @ dec fi @ ''].path must be a string.'')
      else if notNonEmptyString (own_prop f ''label'')
      then Some (''layout['' @ dec si @ ''].fields['' @ dec fi @ ''].label must be a string.'')
      else validateFields si (Suc fi) fs)"

text \<open>The loop over \<^verbatim>\<open>t.layout.entries()\<close>.\<close>

fun validateSections :: "nat \<Rightarrow> jv list \<Rightarrow> string option" where
  "validateSections si [] = None"
| "validateSections si (sec # secs) =
     (if notPlainObject sec then Some (''layout['' @ dec si @ ''] must be an object.'')
      else if notNonEmptyString (own_prop sec ''section'')
      then Some (''layout['' @ dec si @ ''].section must be a string.'')
      else (case own_prop sec ''fields'' of
              JArr flds \<Rightarrow>
                (case validateFields si 0 flds of
                   Some e \<Rightarrow> Some e
                 | None \<Rightarrow> validateSections (Suc si) secs)
            | _ \<Rightarrow> Some (''layout['' @ dec si @ ''].fields must be an array.'')))"

definition validateTemplate :: "jv \<Rightarrow> validation" where
  "validateTemplate t =
     (if notPlainObject t then invalid ''Template must be a JSON object.''
      else if own_prop t ''templateVersion'' \<noteq> JNum 1 then invalid ''templateVersion must be 1.''
      else if notNonEmptyString (own_prop t ''templateName'')
      then invalid ''templateName must be a non-empty string.''
      else (case own_prop t ''layout'' of
              JArr layout \<Rightarrow>
                (case validateSections 0 layout of
                   Some e \<Rightarrow> invalid e
                 | None \<Rightarrow>
                     let m = own_prop t ''match''; rl = own_prop t ''recordLabel'' in
                     if \<not> nullish m \<and> (typeof m \<noteq> Ty_object \<or> isArray m)
                     then invalid ''match must be an object if provided.''
                     else if \<not> nullish m \<and> \<not> nullish (own_prop m ''requiredKeys'') \<and>
                             \<not> isArray (own_prop m ''requiredKeys'')
                     then invalid ''match.requiredKeys must be an array if provided.''
                     else if \<not> nullish rl \<and> (typeof rl \<noteq> Ty_object \<or> isArray rl)
                     then invalid ''recordLabel must be an object if provided.''
                     else if \<not> nullish rl \<and> \<not> nullish (own_prop rl ''fields'') \<and>
                             \<not> isArray (own_prop rl ''fields'')
                     then invalid ''recordLabel.fields must be an array if provided.''
                     else valid)
            | _ \<Rightarrow> invalid ''layout must be an array of sections.''))"

subsection \<open>Matching\<close>

text \<open>
  \<^verbatim>\<open>templateMatchesRecord\<close> (app.js 3857-3887). The loop over \<^verbatim>\<open>m.requiredKeys\<close> skips
  entries that are not non-blank strings and answers false at the first key the record lacks.
\<close>

fun requiredKeysPresent :: "jv \<Rightarrow> jv list \<Rightarrow> bool" where
  "requiredKeysPresent record [] = True"
| "requiredKeysPresent record (k # ks) =
     (case k of
        JStr s \<Rightarrow>
          if trim s = [] then requiredKeysPresent record ks
          else if \<not> hasOwnProperty record s then False
          else requiredKeysPresent record ks
      | _ \<Rightarrow> requiredKeysPresent record ks)"

definition templateMatchesRecord :: "host \<Rightarrow> jv \<Rightarrow> jv \<Rightarrow> error + bool" where
  "templateMatchesRecord h tpl record =
     (if \<not> isObjectLike tpl then Inr False
      else if \<not> isObjectLike record then Inr False
      else
        let m = own_prop tpl ''match'' in
        if \<not> truthy m \<or> typeof m \<noteq> Ty_object then Inr True
        else if (case own_prop m ''requiredKeys'' of
                   JArr ks \<Rightarrow> ks \<noteq> [] \<and> \<not> requiredKeysPresent record ks
                 | _ \<Rightarrow> False)
        then Inr False
        else (case own_prop m ''typeField'' of
                JStr tf \<Rightarrow>
                  if trim tf \<noteq> [] \<and> \<not> nullish (own_prop m ''typeValue'') then
                    bindE (to_string (own_prop m ''typeValue'')) (\<lambda>tv.
                    bindE (member h record (trim tf)) (\<lambda>actual.
                      if nullish actual then Inr False
                      else bindE (to_string actual) (\<lambda>a.
                        if trim a \<noteq> trim tv then Inr False else Inr True)))
                  else Inr True
              | _ \<Rightarrow> Inr True))"

subsection \<open>The kvlist format\<close>

text \<open>
  app.js declares \<^verbatim>\<open>function renderKvListValue\<close> four times (lines 2391, 2491, 2590 and
  2690). In a script the last declaration of a name is the one every call reaches, so
  \<open>renderKvListValue\<close> below is the declaration of lines 2690-2755. The result is the list of
  rows (label, text); the HTML string that the program builds from it is empty exactly when
  there is no row.
\<close>

fun mapE :: "('a \<Rightarrow> error + 'b) \<Rightarrow> 'a list \<Rightarrow> error + 'b list" where
  "mapE f [] = Inr []"
| "mapE f (x # xs) =
     (case f x of
        Inl e \<Rightarrow> Inl e
      | Inr y \<Rightarrow> (case mapE f xs of Inl e \<Rightarrow> Inl e | Inr ys \<Rightarrow> Inr (y # ys)))"

text \<open>\<^verbatim>\<open>String(v).trim()\<close>.\<close>

definition trimmed :: "jv \<Rightarrow> error + string" where
  "trimmed v = bindE (to_string v) (\<lambda>s. Inr (trim s))"

text \<open>\<^verbatim>\<open>a || b\<close>.\<close>

definition orElse :: "jv \<Rightarrow> jv \<Rightarrow> jv" where
  "orElse a b = (if truthy a then a else b)"

fun join_with :: "string \<Rightarrow> string list \<Rightarrow> string" where
  "join_with sep [] = []"
| "join_with sep [x] = x"
| "join_with sep (x # y # ys) = x @ sep @ join_with sep (y # ys)"

text \<open>
  The names of an array value:
  \<^verbatim>\<open>v.map((x) => (x && typeof x === 'object' ? x.Name ?? x.name : x))
    .filter((x) => x != null).map((x) => String(x).trim()).filter(Boolean)\<close>.
\<close>

definition kvNames :: "jv list \<Rightarrow> error + string list" where
  "kvNames v =
     bindE (mapE trimmed
              (filter (\<lambda>x. \<not> nullish x)
                 (map (\<lambda>x. if isObjectLike x
                            then (if nullish (own_prop x ''Name'') then own_prop x ''name''
                                  else own_prop x ''Name'')
                            else x) v)))
       (\<lambda>names. Inr (filter (\<lambda>n. n \<noteq> []) names))"

text \<open>The loop \<^verbatim>\<open>for (const vp of valuePaths)\<close>; the result is \<^verbatim>\<open>val\<close>.\<close>

fun kvValue :: "host \<Rightarrow> jv \<Rightarrow> string list \<Rightarrow> error + jv" where
  "kvValue h item [] = Inr JNull"
| "kvValue h item (vp # vps) =
     (case getValueAtPath h item vp of
        Inl e \<Rightarrow> Inl e
      | Inr (JArr xs) \<Rightarrow>
          (case kvNames xs of
             Inl e \<Rightarrow> Inl e
           | Inr names \<Rightarrow>
               if names \<noteq> [] then Inr (JStr (join_with '', '' names)) else kvValue h item vps)
      | Inr v \<Rightarrow>
          if nullish v then kvValue h item vps
          else (case trimmed v of
                  Inl e \<Rightarrow> Inl e
                | Inr s \<Rightarrow> if s \<noteq> [] then Inr v else kvValue h item vps))"

text \<open>The label of an item: \<^verbatim>\<open>kRaw == null ? '' : String(kRaw).trim()\<close>.\<close>

definition kvKey :: "host \<Rightarrow> jv \<Rightarrow> string \<Rightarrow> error + string" where
  "kvKey h item itemKeyPath =
     bindE (getValueAtPath h item itemKeyPath) (\<lambda>kRaw.
       if nullish kRaw then Inr [] else trimmed kRaw)"

text \<open>One turn of the loop over the items: the row to push, or \<open>None\<close> for \<^verbatim>\<open>continue\<close>.\<close>

definition kvRow :: "host \<Rightarrow> string \<Rightarrow> string list \<Rightarrow> jv \<Rightarrow> error + (string \<times> string) option" where
  "kvRow h itemKeyPath valuePaths item =
     (if notPlainObject item then Inr None
      else
        bindE (kvKey h item itemKeyPath) (\<lambda>key.
          if key = [] then Inr None
          else
            bindE (kvValue h item valuePaths) (\<lambda>val.
              if nullish val then Inr None
              else bindE (to_string val) (\<lambda>s.
                if trim s = [] then Inr None else Inr (Some (key, s))))))"

fun kvLoop ::
  "host \<Rightarrow> string \<Rightarrow> string list \<Rightarrow> int \<Rightarrow> jv list \<Rightarrow> (string \<times> string) list \<Rightarrow>
   error + (string \<times> string) list" where
  "kvLoop h itemKeyPath valuePaths maxItems [] rows = Inr rows"
| "kvLoop h itemKeyPath valuePaths maxItems (item # items) rows =
     (case kvRow h itemKeyPath valuePaths item of
        Inl e \<Rightarrow> Inl e
      | Inr None \<Rightarrow> kvLoop h itemKeyPath valuePaths maxItems items rows
      | Inr (Some r) \<Rightarrow>
          if int (length (rows @ [r])) \<ge> maxItems then Inr (rows @ [r])
          else kvLoop h itemKeyPath valuePaths maxItems items (rows @ [r]))"

text \<open>The configuration read from \<^verbatim>\<open>cfg\<close>, shared by all four declarations.\<close>

definition kvItemKeyPath :: "jv \<Rightarrow> error + string" where
  "kvItemKeyPath c =
     bindE (trimmed (orElse (own_prop c ''itemKeyPath'') (JStr ''Name''))) (\<lambda>s.
       Inr (if s \<noteq> [] then s else ''Name''))"

definition kvValuePaths :: "jv \<Rightarrow> error + string list" where
  "kvValuePaths c =
     (case own_prop c ''valuePaths'' of
        JArr ps \<Rightarrow>
          if ps \<noteq> [] then
            bindE (mapE (\<lambda>p. trimmed (orElse p (JStr []))) ps) (\<lambda>qs.
              Inr (filter (\<lambda>q. q \<noteq> []) qs))
          else Inr [''TextValue'', ''PredefinedValues.Name'', ''PredefinedValues[0].Name'']
      | _ \<Rightarrow> Inr [''TextValue'', ''PredefinedValues.Name'', ''PredefinedValues[0].Name''])"

text \<open>
  \<^verbatim>\<open>Number.isFinite(c.maxItems) ? Math.max(1, c.maxItems) : 6\<close> (line 2702; the three earlier
  declarations round down first, which changes nothing for an integer).
\<close>

definition kvMaxItems :: "jv \<Rightarrow> int" where
  "kvMaxItems c = (case own_prop c ''maxItems'' of JNum n \<Rightarrow> max 1 n | _ \<Rightarrow> 6)"

definition renderKvListValue :: "host \<Rightarrow> jv \<Rightarrow> jv \<Rightarrow> error + (string \<times> string) list" where
  "renderKvListValue h arrValue cfg =
     (case arrValue of
        JArr items \<Rightarrow>
          if items = [] then Inr []
          else
            let c = orElse cfg (JObj []) in
            bindE (kvItemKeyPath c) (\<lambda>itemKeyPath.
            bindE (kvValuePaths c) (\<lambda>valuePaths.
              kvLoop h itemKeyPath valuePaths (kvMaxItems c) items []))
      | _ \<Rightarrow> Inr [])"

text \<open>
  The declaration of lines 2590-2676, which the one above replaces. It differs in
  \<^verbatim>\<open>showEmpty\<close> and \<^verbatim>\<open>emptyText\<close>: a row without a value is kept, with the text \<^verbatim>\<open>emptyText\<close>,
  when \<^verbatim>\<open>showEmpty\<close> is set.
\<close>

definition kvEmptyText :: "jv \<Rightarrow> string" where
  "kvEmptyText c =
     (case own_prop c ''emptyText'' of
        JStr s \<Rightarrow> if trim s \<noteq> [] then trim s else ''(empty)''
      | _ \<Rightarrow> ''(empty)'')"

definition kvRow_2590 ::
  "host \<Rightarrow> string \<Rightarrow> string list \<Rightarrow> bool \<Rightarrow> string \<Rightarrow> jv \<Rightarrow> error + (string \<times> string) option" where
  "kvRow_2590 h itemKeyPath valuePaths showEmpty emptyText item =
     (if notPlainObject item then Inr None
      else
        bindE (kvKey h item itemKeyPath) (\<lambda>key.
          if key = [] then Inr None
          else
            bindE (kvValue h item valuePaths) (\<lambda>val.
            bindE (if nullish val then Inr (if showEmpty then emptyText else [])
                   else bindE (to_string val) (\<lambda>s.
                     Inr (if trim s = [] then (if showEmpty then emptyText else []) else s)))
              (\<lambda>finalText. if finalText = [] then Inr None else Inr (Some (key, finalText))))))"

fun kvLoop_2590 ::
  "host \<Rightarrow> string \<Rightarrow> string list \<Rightarrow> int \<Rightarrow> bool \<Rightarrow> string \<Rightarrow> jv list \<Rightarrow>
   (string \<times> string) list \<Rightarrow> error + (string \<times> string) list" where
  "kvLoop_2590 h itemKeyPath valuePaths maxItems showEmpty emptyText [] rows = Inr rows"
| "kvLoop_2590 h itemKeyPath valuePaths maxItems showEmpty emptyText (item # items) rows =
     (case kvRow_2590 h itemKeyPath valuePaths showEmpty emptyText item of
        Inl e \<Rightarrow> Inl e
      | Inr None \<Rightarrow> kvLoop_2590 h itemKeyPath valuePaths maxItems showEmpty emptyText items rows
      | Inr (Some r) \<Rightarrow>
          if int (length (rows @ [r])) \<ge> maxItems then Inr (rows @ [r])
          else kvLoop_2590 h itemKeyPath valuePaths maxItems showEmpty emptyText items
                 (rows @ [r]))"

definition renderKvListValue_2590 ::
  "host \<Rightarrow> jv \<Rightarrow> jv \<Rightarrow> error + (string \<times> string) list" where
  "renderKvListValue_2590 h arrValue cfg =
     (case arrValue of
        JArr items \<Rightarrow>
          if items = [] then Inr []
          else
            let c = orElse cfg (JObj []) in
            bindE (kvItemKeyPath c) (\<lambda>itemKeyPath.
            bindE (kvValuePaths c) (\<lambda>valuePaths.
              kvLoop_2590 h itemKeyPath valuePaths (kvMaxItems c)
                (truthy (own_prop c ''showEmpty'')) (kvEmptyText c) items []))
      | _ \<Rightarrow> Inr [])"

subsection \<open>Field hits\<close>

text \<open>
  \<^verbatim>\<open>countTemplateFieldHits\<close> (app.js 1830-1865). \<open>fieldHit\<close> is the body of the inner loop:
  whether the field counts.
\<close>

definition fieldHit :: "host \<Rightarrow> jv \<Rightarrow> jv \<Rightarrow> error + bool" where
  "fieldHit h record f =
     (if \<not> isObjectLike f then Inr False
      else
        bindE (trimmed (orElse (own_prop f ''path'') (JStr []))) (\<lambda>p.
          if p = [] then Inr False
          else
            bindE (getValueAtPath h record p) (\<lambda>v.
              if v = JUndefined then Inr False
              else
                bindE (trimmed (orElse (own_prop f ''format'') (JStr ''text''))) (\<lambda>fm.
                  if toLowerCase fm = ''kvlist''
                  then bindE (renderKvListValue h v f) (\<lambda>rows. Inr (rows \<noteq> []))
                  else Inr True))))"

fun countFields :: "host \<Rightarrow> jv \<Rightarrow> jv list \<Rightarrow> nat \<Rightarrow> error + nat" where
  "countFields h record [] hits = Inr hits"
| "countFields h record (f # fs) hits =
     (case fieldHit h record f of
        Inl e \<Rightarrow> Inl e
      | Inr b \<Rightarrow> countFields h record fs (if b then hits + 1 else hits))"

text \<open>\<^verbatim>\<open>Array.isArray(sec.fields) ? sec.fields : []\<close>.\<close>

definition sectionFields :: "jv \<Rightarrow> jv list" where
  "sectionFields sec = (case own_prop sec ''fields'' of JArr fs \<Rightarrow> fs | _ \<Rightarrow> [])"

fun countSections :: "host \<Rightarrow> jv \<Rightarrow> jv list \<Rightarrow> nat \<Rightarrow> error + nat" where
  "countSections h record [] hits = Inr hits"
| "countSections h record (sec # secs) hits =
     (if \<not> isObjectLike sec then countSections h record secs hits
      else (case countFields h record (sectionFields sec) hits of
              Inl e \<Rightarrow> Inl e
            | Inr hits' \<Rightarrow> countSections h record secs hits'))"

definition countTemplateFieldHits :: "host \<Rightarrow> jv \<Rightarrow> jv \<Rightarrow> error + nat" where
  "countTemplateFieldHits h templ record =
     (if \<not> isObjectLike templ then Inr 0
      else if \<not> isObjectLike record then Inr 0
      else (case own_prop templ ''layout'' of
              JArr layout \<Rightarrow> countSections h record layout 0
            | _ \<Rightarrow> Inr 0))"

subsection \<open>Registry and selection\<close>

text \<open>
  An entry of \<^verbatim>\<open>state.templates\<close>, as \<^verbatim>\<open>addTemplateFiles\<close> pushes it (app.js 3698-3704), and
  the two fields of \<^verbatim>\<open>state\<close> that template selection reads. \<^verbatim>\<open>activeTemplateId\<close> is
  \<^verbatim>\<open>null\<close> or a string.
\<close>

record tplEntry =
  entryId :: string
  entryName :: string
  rawText :: string
  template :: jv
  sourceFileName :: string

record appState =
  templates :: "tplEntry list"
  activeTemplateId :: "string option"

definition TEMPLATE_AUTO_ID :: string where
  "TEMPLATE_AUTO_ID = ''__auto__''"

text \<open>The result \<^verbatim>\<open>{ entry, templateObj }\<close> of the two selection functions.\<close>

record resolved =
  entry :: tplEntry
  templateObj :: jv

text \<open>\<^verbatim>\<open>getExplicitActiveTemplate\<close> (app.js 3756-3761).\<close>

definition getExplicitActiveTemplate :: "appState \<Rightarrow> tplEntry option" where
  "getExplicitActiveTemplate st =
     (case activeTemplateId st of
        None \<Rightarrow> None
      | Some i \<Rightarrow>
          if i = [] then None
          else if i = TEMPLATE_AUTO_ID then None
          else find (\<lambda>t. entryId t = i) (templates st))"

text \<open>The score of \<^verbatim>\<open>getBestTemplateForRecord\<close> (app.js 3794-3805).\<close>

definition matchOf :: "jv \<Rightarrow> jv" where
  "matchOf tpl = (if isObjectLike tpl then own_prop tpl ''match'' else JNull)"

definition requiredKeysCount :: "jv \<Rightarrow> nat" where
  "requiredKeysCount tpl =
     (let m = matchOf tpl in
      if truthy m then
        (case own_prop m ''requiredKeys'' of JArr ks \<Rightarrow> length (filter truthy ks) | _ \<Rightarrow> 0)
      else 0)"

definition hasTypeField :: "jv \<Rightarrow> bool" where
  "hasTypeField tpl =
     (let m = matchOf tpl in
      truthy m \<and> (case own_prop m ''typeField'' of JStr s \<Rightarrow> trim s \<noteq> [] | _ \<Rightarrow> False))"

definition score :: "jv \<Rightarrow> nat \<Rightarrow> int" where
  "score tpl hits =
     int hits * 1000 + int (requiredKeysCount tpl) * 10 + (if hasTypeField tpl then 100 else 0)"

text \<open>The loop \<^verbatim>\<open>for (const entry of state.templates)\<close> with its two variables.\<close>

fun getBestTemplateForRecord_loop ::
  "host \<Rightarrow> jv \<Rightarrow> tplEntry list \<Rightarrow> resolved option \<Rightarrow> int \<Rightarrow> error + resolved option" where
  "getBestTemplateForRecord_loop h record [] best bestScore = Inr best"
| "getBestTemplateForRecord_loop h record (e # es) best bestScore =
     (case templateMatchesRecord h (template e) record of
        Inl err \<Rightarrow> Inl err
      | Inr matches \<Rightarrow>
          if \<not> matches then getBestTemplateForRecord_loop h record es best bestScore
          else (case countTemplateFieldHits h (template e) record of
                  Inl err \<Rightarrow> Inl err
                | Inr hits \<Rightarrow>
                    if hits \<le> 0 then getBestTemplateForRecord_loop h record es best bestScore
                    else if score (template e) hits > bestScore
                    then getBestTemplateForRecord_loop h record es
                           (Some \<lparr>entry = e, templateObj = template e\<rparr>) (score (template e) hits)
                    else getBestTemplateForRecord_loop h record es best bestScore))"

text \<open>\<^verbatim>\<open>getBestTemplateForRecord\<close> (app.js 3777-3814).\<close>

definition getBestTemplateForRecord :: "host \<Rightarrow> appState \<Rightarrow> jv \<Rightarrow> error + resolved option" where
  "getBestTemplateForRecord h st record =
     (if \<not> isObjectLike record then Inr None
      else if templates st = [] then Inr None
      else getBestTemplateForRecord_loop h record (templates st) None (- 1))"

text \<open>\<^verbatim>\<open>getTemplateForRecord\<close> (app.js 3825-3846).\<close>

definition getTemplateForRecord :: "host \<Rightarrow> appState \<Rightarrow> jv \<Rightarrow> error + resolved option" where
  "getTemplateForRecord h st record =
     (case activeTemplateId st of
        None \<Rightarrow> Inr None
      | Some sel \<Rightarrow>
          if sel = [] then Inr None
          else if sel = TEMPLATE_AUTO_ID then getBestTemplateForRecord h st record
          else (case getExplicitActiveTemplate st of
                  None \<Rightarrow> Inr None
                | Some explicit \<Rightarrow>
                    bindE (templateMatchesRecord h (template explicit) record) (\<lambda>matches.
                      if \<not> matches then Inr None
                      else Inr (Some \<lparr>entry = explicit, templateObj = template explicit\<rparr>))))"

section \<open>View renderer\<close>

text \<open>
  The renderer builds HTML text. The model keeps what the text is built from: which view, which
  card, which rows, in which nesting, and the strings that are written into them. Tags, classes
  and styles are left out, and so are the previews shown next to a collapsed value
  (\<^verbatim>\<open>buildArrayPreview\<close>, \<^verbatim>\<open>buildObjectPreview\<close>, which convert only strings, numbers and
  booleans) and the path hints of \<^verbatim>\<open>state.showPaths\<close>. Every conversion that can throw is kept.
\<close>

subsection \<open>Values and rows\<close>

text \<open>
  The parts of the title of an array item (\<^verbatim>\<open>buildItemSummary\<close>), which the program joins with
  a bullet: the index, \<^verbatim>\<open>Id ...\<close>, \<^verbatim>\<open>#...\<close>, the trimmed title (cut after 60 characters),
  the status in parentheses, and \<^verbatim>\<open>Object (n keys)\<close>.
\<close>

datatype summaryBit =
    IndexBit nat
  | IdBit string
  | NumBit string
  | TitleBit string
  | StatusBit string
  | KeysBit nat

text \<open>
  \<open>NullBadge\<close> is the badge \<^verbatim>\<open>null\<close>; \<open>EscapedText s\<close> is \<^verbatim>\<open>escapeHtml(s)\<close>, empty exactly when
  \<open>s\<close> is; \<open>Anchor s\<close> is the link to \<open>s\<close>; \<open>JsonText v\<close> is the text of
  \<^verbatim>\<open>JSON.stringify(v, null, 2)\<close>; \<open>EmptyState s\<close> is the note \<open>s\<close>; \<open>ArrayMeta shown n\<close> is the
  line that counts the items; \<open>ValueArray n body\<close> and \<open>ValueObject n body\<close> are the collapsed
  blocks \<^verbatim>\<open>Expand array (n)\<close> and \<^verbatim>\<open>Expand object (n keys)\<close>; \<open>KvRow key value\<close> is a row of
  \<^verbatim>\<open>renderKV\<close>; \<open>ArrayItem row\<close> and \<open>ArrayItemCard summary rows\<close> are the two kinds of items
  of \<^verbatim>\<open>renderArrayItem\<close>.
\<close>

datatype markup =
    NullBadge
  | EscapedText string
  | Anchor string
  | JsonText jv
  | EmptyState string
  | ArrayMeta nat nat
  | ValueArray nat "markup list"
  | ValueObject nat "markup list"
  | KvRow string markup
  | ArrayItem "markup option"
  | ArrayItemCard "summaryBit list" "markup list"

text \<open>The options of \<^verbatim>\<open>renderValue\<close> and \<^verbatim>\<open>renderKV\<close>, read as booleans.\<close>

record opts =
  opt_collapsible :: bool
  opt_link :: bool
  opt_rich :: bool

text \<open>No options (\<^verbatim>\<open>opts || {}\<close>), and \<^verbatim>\<open>{ collapsible: true }\<close>.\<close>

definition noOpts :: opts where
  "noOpts = \<lparr>opt_collapsible = False, opt_link = False, opt_rich = False\<rparr>"

definition collapsibleOpts :: opts where
  "collapsibleOpts = \<lparr>opt_collapsible = True, opt_link = False, opt_rich = False\<rparr>"

text \<open>
  \<^verbatim>\<open>looksLikeUrl\<close> (app.js 133-136) on a string: the test \<^verbatim>\<open>/^https?:\/\/\S+/i\<close>.
\<close>

definition looksLikeUrl :: "string \<Rightarrow> bool" where
  "looksLikeUrl s =
     (let rest = (if toLowerCase (take 7 s) = ''http://'' then Some (drop 7 s)
                  else if toLowerCase (take 8 s) = ''https://'' then Some (drop 8 s)
                  else None)
      in (case rest of Some (c # cs) \<Rightarrow> \<not> is_ws c | _ \<Rightarrow> False))"

text \<open>\<^verbatim>\<open>pickFirst\<close> (app.js 3441-3447).\<close>

fun pickFirst_loop :: "jv \<Rightarrow> string list \<Rightarrow> jv" where
  "pickFirst_loop obj [] = JNull"
| "pickFirst_loop obj (k # ks) =
     (if hasOwnProperty obj k then own_prop obj k else pickFirst_loop obj ks)"

definition pickFirst :: "jv \<Rightarrow> string list \<Rightarrow> jv" where
  "pickFirst obj keys = (if \<not> isObjectLike obj then JNull else pickFirst_loop obj keys)"

text \<open>
  \<^verbatim>\<open>buildItemSummary\<close> (app.js 3117-3166). \<^verbatim>\<open>String(id)\<close> and \<^verbatim>\<open>String(num)\<close> are behind the
  guard \<^verbatim>\<open>!= null\<close> only: an object that has no primitive value makes them throw.
\<close>

definition buildItemSummary :: "jv \<Rightarrow> nat \<Rightarrow> error + summaryBit list" where
  "buildItemSummary obj idx =
     (let ident = pickFirst obj [''Id'', ''id'', ''ID'', ''uid'', ''guid'', ''uuid''];
          num = pickFirst obj [''Number'', ''number'', ''No'', ''no'', ''code'', ''Code''];
          title = pickFirst obj [''Title'', ''title'', ''Subject'', ''subject'', ''Name'', ''name'',
                                 ''Summary'', ''summary''];
          status = pickFirst obj [''Status'', ''status'', ''State'', ''state'', ''ReviewStatus'',
                                  ''reviewStatus'']
      in
      bindE (if nullish ident then Inr [] else bindE (to_string ident) (\<lambda>s. Inr [IdBit s]))
        (\<lambda>idBits.
      bindE (if nullish num then Inr [] else bindE (to_string num) (\<lambda>s. Inr [NumBit s]))
        (\<lambda>numBits.
        let titleBits = (case title of
                           JStr t \<Rightarrow> if trim t \<noteq> [] then [TitleBit (trim t)] else []
                         | _ \<Rightarrow> []);
            statusBits = (case status of
                            JStr s \<Rightarrow> if trim s \<noteq> [] then [StatusBit (trim s)] else []
                          | _ \<Rightarrow>
                              if isObjectLike status
                              then (case pickFirst status [''Name'', ''name''] of
                                      JStr n \<Rightarrow> if trim n \<noteq> [] then [StatusBit (trim n)] else []
                                    | _ \<Rightarrow> [])
                              else []);
            bits = idBits @ numBits @ titleBits @ statusBits
        in Inr (IndexBit idx #
                (if bits = [] then [KeysBit (length (object_keys obj))] else bits)))))"

text \<open>
  The order of the rows of an object (\<^verbatim>\<open>renderObjectAsKv\<close>, app.js 2970-3038): the keys of the
  list \<^verbatim>\<open>preferred\<close> first, then the other keys sorted with \<^verbatim>\<open>localeCompare\<close>. That sort
  depends on the locale of the host, so it is a parameter \<open>srt\<close>.
\<close>

definition preferredKeys :: "string list" where
  "preferredKeys =
     [''Id'', ''id'', ''Number'', ''number'', ''Title'', ''title'', ''Name'', ''name'', ''Subject'',
      ''subject'', ''Status'', ''status'', ''Type'', ''type'', ''Priority'', ''priority'',
      ''CreationDate'', ''creationDate'', ''LastModificationDate'', ''lastModificationDate'',
      ''DueDate'', ''dueDate'', ''Url'', ''url'', ''ViewerUrl'', ''viewerUrl'']"

type_synonym collation = "string list \<Rightarrow> string list"

definition sortedKeys :: "collation \<Rightarrow> string list \<Rightarrow> string list" where
  "sortedKeys srt keys =
     filter (\<lambda>k. k \<in> set preferredKeys) keys @ srt (filter (\<lambda>k. k \<notin> set preferredKeys) keys)"

definition isUrlKey :: "string \<Rightarrow> bool" where
  "isUrlKey k = (str_includes (toLowerCase k) ''url'' \<or> str_includes (toLowerCase k) ''link'')"

text \<open>The options that \<^verbatim>\<open>renderObjectAsKv\<close> passes for the key \<open>k\<close> and its value \<open>v\<close>.\<close>

definition kvOpts :: "string \<Rightarrow> jv \<Rightarrow> opts" where
  "kvOpts k v =
     \<lparr>opt_collapsible = isObjectLike v,
      opt_link = (isUrlKey k \<and> typeof v = Ty_string),
      opt_rich = (case v of JStr s \<Rightarrow> str_includes s [CHR 0x0A] | _ \<Rightarrow> False)\<rparr>"

text \<open>The label \<^verbatim>\<open>[idx]\<close> of an array item.\<close>

definition indexLabel :: "nat \<Rightarrow> string" where
  "indexLabel idx = ''['' @ dec idx @ '']''"

text \<open>\<^verbatim>\<open>arr[idx]\<close> for an index.\<close>

definition itemAt :: "jv list \<Rightarrow> nat \<Rightarrow> jv" where
  "itemAt xs idx = (if idx < length xs then xs ! idx else JUndefined)"

text \<open>
  \<^verbatim>\<open>renderValue\<close> (app.js 2762-2851), \<^verbatim>\<open>renderKV\<close> (2334-2357), \<^verbatim>\<open>renderObjectAsKv\<close>
  (2970-3038), \<^verbatim>\<open>renderArrayAsList\<close> (3040-3076) and \<^verbatim>\<open>renderArrayItem\<close> (3078-3115) call
  each other down the value. A string renders as a link, or as its escaped text (with or without
  \<^verbatim>\<open>rich\<close>); a number, a boolean and anything else as \<^verbatim>\<open>escapeHtml(String(value))\<close>. An array
  shows its first 50 items. \<^verbatim>\<open>renderKV\<close> returns nothing (\<open>None\<close>) when the value renders as
  the empty text.
\<close>

function renderValue :: "collation \<Rightarrow> jv \<Rightarrow> opts \<Rightarrow> error + markup"
  and renderKV :: "collation \<Rightarrow> string \<Rightarrow> jv \<Rightarrow> opts \<Rightarrow> error + markup option"
  and renderObjectAsKv :: "collation \<Rightarrow> jv \<Rightarrow> error + markup list"
  and renderArrayAsList :: "collation \<Rightarrow> jv \<Rightarrow> error + markup list"
  and renderArrayItem :: "collation \<Rightarrow> jv \<Rightarrow> nat \<Rightarrow> error + markup"
where
  "renderValue srt v ob =
     (if nullish v then Inr NullBadge
      else (case v of
              JStr s \<Rightarrow>
                if opt_link ob \<and> looksLikeUrl s then Inr (Anchor s)
                else if opt_rich ob then Inr (EscapedText s)
                else Inr (EscapedText s)
            | JArr xs \<Rightarrow>
                if \<not> opt_collapsible ob then Inr (JsonText v)
                else bindE (renderArrayAsList srt v) (\<lambda>body. Inr (ValueArray (length xs) body))
            | JObj kvs \<Rightarrow>
                if \<not> opt_collapsible ob then Inr (JsonText v)
                else bindE (renderObjectAsKv srt v)
                       (\<lambda>body. Inr (ValueObject (length (object_keys v)) body))
            | _ \<Rightarrow> bindE (to_string v) (\<lambda>s. Inr (EscapedText s))))"
| "renderKV srt key v ob =
     bindE (renderValue srt v ob)
       (\<lambda>m. if m = EscapedText [] then Inr None else Inr (Some (KvRow key m)))"
| "renderObjectAsKv srt obj =
     (if \<not> isMapping obj then Inr []
      else if object_keys obj = [] then Inr [EmptyState ''(no keys)'']
      else bindE (mapE (\<lambda>k. renderKV srt k (own_prop obj k) (kvOpts k (own_prop obj k)))
                    (sortedKeys srt (object_keys obj)))
             (\<lambda>rows. Inr (List.map_filter id rows)))"
| "renderArrayAsList srt arr =
     (case arr of
        JArr xs \<Rightarrow>
          if xs = [] then Inr [EmptyState ''(empty array)'']
          else (let showCount = min (length xs) 50 in
                bindE (mapE (\<lambda>idx. renderArrayItem srt (itemAt xs idx) idx) [0..<showCount])
                  (\<lambda>items. Inr (ArrayMeta showCount (length xs) # items)))
      | _ \<Rightarrow> Inr [])"
| "renderArrayItem srt item idx =
     (if nullish item \<or> typeof item \<noteq> Ty_object then
        bindE (renderKV srt (indexLabel idx) item noOpts) (\<lambda>row. Inr (ArrayItem row))
      else if isArray item then
        bindE (renderKV srt (indexLabel idx) item collapsibleOpts) (\<lambda>row. Inr (ArrayItem row))
      else
        bindE (buildItemSummary item idx) (\<lambda>summary.
        bindE (renderObjectAsKv srt item) (\<lambda>rows. Inr (ArrayItemCard summary rows))))"
  by pat_completeness auto
termination
proof (relation "measure (\<lambda>x. case x of
            Inl (Inl (srt, v, ob)) \<Rightarrow> 5 * size v + 2
          | Inl (Inr (srt, key, v, ob)) \<Rightarrow> 5 * size v + 3
          | Inr (Inl (srt, obj)) \<Rightarrow> 5 * size obj + 1
          | Inr (Inr (Inl (srt, arr))) \<Rightarrow> 5 * size arr + 1
          | Inr (Inr (Inr (srt, item, idx))) \<Rightarrow> 5 * size item + 4)", goal_cases)
  case (5 srt obj k)
  then obtain kvs where o: "obj = JObj kvs" by (cases obj) (simp_all add: isMapping_def)
  have "size (own_prop (JObj kvs) k) < size (JObj kvs)"
  proof (cases "map_of kvs k")
    case None
    then show ?thesis by simp
  next
    case (Some v)
    then have "(k, v) \<in> set kvs" by (rule map_of_SomeD)
    then have "size_prod (\<lambda>_. 0) size (k, v) \<le> size_list (size_prod (\<lambda>_. 0) size) kvs"
      by (simp add: size_list_estimation')
    with Some show ?thesis by simp
  qed
  with o show ?case by simp
next
  case (6 srt arr xs n idx)
  have "size (itemAt xs idx) \<le> size_list size xs"
  proof (cases "idx < length xs")
    case True
    then have "xs ! idx \<in> set xs" by (rule nth_mem)
    then have "size (xs ! idx) \<le> size_list size xs" by (simp add: size_list_estimation')
    with True show ?thesis by (simp add: itemAt_def)
  next
    case False
    then show ?thesis by (simp add: itemAt_def)
  qed
  with 6 show ?case by simp
qed simp_all

declare renderValue.simps [simp del] renderKV.simps [simp del] renderObjectAsKv.simps [simp del]
  renderArrayAsList.simps [simp del] renderArrayItem.simps [simp del]

subsection \<open>Views\<close>

text \<open>
  \<open>CollapsibleCard title open bodyParts\<close> is \<^verbatim>\<open>renderCollapsibleCard(title, open, bodyParts)\<close>;
  \<open>HintCard title chevron rows\<close> is the plain card of app.js 1893-1913. The markup of one
  template field (\<^verbatim>\<open>renderTemplateField\<close>, app.js 1737-1819) is a parameter \<open>rtf\<close>: a string,
  empty when the field renders nothing. The markup of the two built-in views
  (\<^verbatim>\<open>renderGenericPrettyView\<close>, app.js 2084-2103, and \<^verbatim>\<open>renderIssueTemplate\<close>, app.js
  1955-2077) is taken as the parameters \<open>rgp\<close> and \<open>rit\<close>; like every renderer they may throw.
\<close>

datatype cardView = CollapsibleCard string bool "string list"

datatype view =
    GenericPrettyView string
  | IssueTemplate string
  | HintCard string string "markup list"
  | SectionCards "cardView list"

definition tplNameOf :: "jv \<Rightarrow> string" where
  "tplNameOf templ =
     (case own_prop templ ''templateName'' of
        JStr s \<Rightarrow> if trim s \<noteq> [] then trim s else ''Selected template''
      | _ \<Rightarrow> ''Selected template'')"

text \<open>
  One turn of \<^verbatim>\<open>template.layout.map((sec, i) => ...)\<close>. Reading \<^verbatim>\<open>sec.section\<close> of a
  \<^verbatim>\<open>null\<close> section throws.
\<close>

definition renderSection ::
  "(jv \<Rightarrow> jv \<Rightarrow> error + string) \<Rightarrow> jv \<Rightarrow> nat \<times> jv \<Rightarrow> error + cardView" where
  "renderSection rtf record isec =
     (let i = fst isec; sec = snd isec in
      if nullish sec then Inl TypeError
      else
        bindE (trimmed (orElse (own_prop sec ''section'') (JStr []))) (\<lambda>t.
          let title = (if t \<noteq> [] then t else ''Section '' @ dec (i + 1)) in
          bindE (mapE (rtf record) (sectionFields sec)) (\<lambda>parts.
            Inr (CollapsibleCard title (i = 0) (filter (\<lambda>p. p \<noteq> []) parts)))))"

text \<open>
  \<^verbatim>\<open>renderTemplateRecordView\<close> (app.js 1879-1931). With no hit, the card is built from five
  calls of \<^verbatim>\<open>renderKV\<close>; the last one renders the whole record, collapsed, and the card exists
  only if that call returns.
\<close>

definition renderTemplateRecordView ::
  "host \<Rightarrow> collation \<Rightarrow> (jv \<Rightarrow> jv \<Rightarrow> error + string) \<Rightarrow> (jv \<Rightarrow> error + string) \<Rightarrow>
   jv \<Rightarrow> jv \<Rightarrow> error + view" where
  "renderTemplateRecordView h srt rtf rgp templ record =
     (if \<not> isObjectLike templ then bindE (rgp record) (\<lambda>m. Inr (GenericPrettyView m))
      else (case own_prop templ ''layout'' of
              JArr layout \<Rightarrow>
                bindE (countTemplateFieldHits h templ record) (\<lambda>hitCount.
                  if hitCount = 0 then
                    bindE (renderKV srt ''Template'' (JStr (tplNameOf templ)) noOpts) (\<lambda>r1.
                    bindE (renderKV srt ''What happened''
                             (JStr (''This record does not contain any of the fields defined '' @
                                    ''in the template.'')) noOpts) (\<lambda>r2.
                    bindE (renderKV srt ''What to do''
                             (JStr (''Check your template paths, or adjust match.requiredKeys '' @
                                    ''so the template only applies to the right records.''))
                             noOpts) (\<lambda>r3.
                    bindE (renderKV srt ''Fallback''
                             (JStr ''Showing the full record below (collapsed).'') noOpts) (\<lambda>r4.
                    bindE (renderKV srt ''Record'' record collapsibleOpts) (\<lambda>r5.
                      Inr (HintCard ''No fields from this template were found'' ''Hint''
                             (List.map_filter id [r1, r2, r3, r4, r5])))))))
                  else
                    bindE (mapE (renderSection rtf record) (zip [0..<length layout] layout))
                      (\<lambda>sections. Inr (SectionCards sections)))
            | _ \<Rightarrow> bindE (rgp record) (\<lambda>m. Inr (GenericPrettyView m))))"

text \<open>
  \<^verbatim>\<open>renderRecordView\<close> (app.js 1941-1947); \<^verbatim>\<open>activeTemplate\<close> is a template object or
  \<^verbatim>\<open>null\<close>.
\<close>

definition renderRecordView ::
  "host \<Rightarrow> collation \<Rightarrow> (jv \<Rightarrow> jv \<Rightarrow> error + string) \<Rightarrow> (jv \<Rightarrow> error + string) \<Rightarrow>
   (jv \<Rightarrow> error + string) \<Rightarrow> RecordType \<Rightarrow> jv \<Rightarrow> jv \<Rightarrow> error + view" where
  "renderRecordView h srt rtf rgp rit recordType record activeTemplate =
     (if truthy activeTemplate then renderTemplateRecordView h srt rtf rgp activeTemplate record
      else if recordType = Issue then bindE (rit record) (\<lambda>m. Inr (IssueTemplate m))
      else bindE (rgp record) (\<lambda>m. Inr (GenericPrettyView m)))"

section \<open>Predicates used in the statements\<close>

text \<open>
  A template whose \<^verbatim>\<open>match\<close> block is empty: there is no block, or the block is an object that
  declares no \<^verbatim>\<open>requiredKeys\<close> entry, no \<^verbatim>\<open>typeField\<close> and no \<^verbatim>\<open>typeValue\<close>.
\<close>

definition matchBlockEmpty :: "jv \<Rightarrow> bool" where
  "matchBlockEmpty tpl =
     (let m = own_prop tpl ''match'' in
      nullish m \<or>
      (isMapping m \<and>
       (nullish (own_prop m ''requiredKeys'') \<or> own_prop m ''requiredKeys'' = JArr []) \<and>
       nullish (own_prop m ''typeField'') \<and> nullish (own_prop m ''typeValue'')))"

text \<open>
  The path grammar of the specification: name segments separated by \<^verbatim>\<open>.\<close>, index segments
  \<^verbatim>\<open>[n]\<close> appended to the preceding segment or standing first. A name is a non-empty string
  without \<^verbatim>\<open>.\<close>, \<^verbatim>\<open>[\<close> and \<^verbatim>\<open>]\<close>. \<open>pathText\<close> writes a list of segments as a path.
\<close>

definition wfName :: "string \<Rightarrow> bool" where
  "wfName k = (k \<noteq> [] \<and> list_all is_name_char k)"

fun wfSegment :: "token \<Rightarrow> bool" where
  "wfSegment (TName k) = wfName k"
| "wfSegment (TIndex n) = True"

fun pathTail :: "token list \<Rightarrow> string" where
  "pathTail [] = []"
| "pathTail (TName k # ts) = ''.'' @ k @ pathTail ts"
| "pathTail (TIndex n # ts) = ''['' @ dec n @ '']'' @ pathTail ts"

fun pathText :: "token list \<Rightarrow> string" where
  "pathText [] = []"
| "pathText (TName k # ts) = k @ pathTail ts"
| "pathText (TIndex n # ts) = ''['' @ dec n @ '']'' @ pathTail ts"

text \<open>A template all of whose sections declare the empty \<^verbatim>\<open>fields\<close> array.\<close>

definition allFieldsEmpty :: "jv \<Rightarrow> bool" where
  "allFieldsEmpty t =
     (case own_prop t ''layout'' of
        JArr layout \<Rightarrow> list_all (\<lambda>sec. own_prop sec ''fields'' = JArr []) layout
      | _ \<Rightarrow> False)"

text \<open>
  The card "No fields from this template were found" for a template name and the row that
  \<^verbatim>\<open>renderKV('Record', ...)\<close> returned: the name of the template, what happened, what to do,
  the fallback, and the full data collapsed.
\<close>

definition noFieldsCard :: "string \<Rightarrow> markup option \<Rightarrow> view" where
  "noFieldsCard tplName recordRow =
     HintCard ''No fields from this template were found'' ''Hint''
       ([KvRow ''Template'' (EscapedText tplName),
         KvRow ''What happened''
           (EscapedText (''This record does not contain any of the fields defined '' @
                         ''in the template.'')),
         KvRow ''What to do''
           (EscapedText (''Check your template paths, or adjust match.requiredKeys '' @
                         ''so the template only applies to the right records.'')),
         KvRow ''Fallback'' (EscapedText ''Showing the full record below (collapsed).'')] @
        (case recordRow of Some row \<Rightarrow> [row] | None \<Rightarrow> []))"

text \<open>No object inside the value has a key \<^verbatim>\<open>toString\<close>.\<close>

fun noToStringKey :: "jv \<Rightarrow> bool" where
  "noToStringKey (JArr xs) = list_all noToStringKey xs"
| "noToStringKey (JObj kvs) =
     (map_of kvs ''toString'' = None \<and> list_all noToStringKey (map snd kvs))"
| "noToStringKey v = True"

text \<open>
  An optional block (\<^verbatim>\<open>match\<close> with \<^verbatim>\<open>requiredKeys\<close>, \<^verbatim>\<open>recordLabel\<close> with \<^verbatim>\<open>fields\<close>) as
  validation accepts it: absent, or an object whose list is absent or an array.
\<close>

definition blockWellTyped :: "jv \<Rightarrow> string \<Rightarrow> bool" where
  "blockWellTyped b k =
     (nullish b \<or> (isMapping b \<and> (nullish (own_prop b k) \<or> isArray (own_prop b k))))"

text \<open>
  Auto selection in the words of the specification. A template is a candidate for a record when
  it matches the record and has at least one field hit; its score is computed from its hits; the
  choice is the first candidate, in registry order, whose score no candidate exceeds.
  \<open>evaluates\<close> says that matching and hit counting return for a template (no TypeError from
  converting an object that shadows \<^verbatim>\<open>toString\<close>).
\<close>

definition mkResolved :: "tplEntry \<Rightarrow> resolved" where
  "mkResolved e = \<lparr>entry = e, templateObj = template e\<rparr>"

definition candidate :: "host \<Rightarrow> jv \<Rightarrow> tplEntry \<Rightarrow> bool" where
  "candidate h record e =
     (templateMatchesRecord h (template e) record = Inr True \<and>
      (case countTemplateFieldHits h (template e) record of Inr n \<Rightarrow> 0 < n | Inl err \<Rightarrow> False))"

definition hitsOf :: "host \<Rightarrow> jv \<Rightarrow> tplEntry \<Rightarrow> nat" where
  "hitsOf h record e =
     (case countTemplateFieldHits h (template e) record of Inr n \<Rightarrow> n | Inl err \<Rightarrow> 0)"

definition scoreOf :: "host \<Rightarrow> jv \<Rightarrow> tplEntry \<Rightarrow> int" where
  "scoreOf h record e = score (template e) (hitsOf h record e)"




text \<open>
  Dataset detection in the words of the specification: the sample is the first 25 mapping-typed
  elements; a key is common when it is present in at least 60% of the sampled items; the
  common-key ratio is the number of common keys over the number of observed keys; the nested
  ratio is the number of object- or array-valued fields over the number of fields of the sample.
\<close>

definition datasetSample :: "jv list \<Rightarrow> jv list" where
  "datasetSample xs = take 25 (filter isMapping xs)"

definition observedKeys :: "jv list \<Rightarrow> string set" where
  "observedKeys sample = (\<Union>ob \<in> set sample. set (object_keys ob))"

definition keyPresence :: "jv list \<Rightarrow> string \<Rightarrow> nat" where
  "keyPresence sample k = length (filter (\<lambda>ob. k \<in> set (object_keys ob)) sample)"

definition commonKeys :: "jv list \<Rightarrow> string set" where
  "commonKeys sample =
     {k \<in> observedKeys sample.
        (of_nat (keyPresence sample k) :: rat) / of_nat (length sample) \<ge> 60 / 100}"

definition totalFields :: "jv list \<Rightarrow> nat" where
  "totalFields sample = sum_list (map (\<lambda>ob. length (object_keys ob)) sample)"

definition nestedFields :: "jv list \<Rightarrow> nat" where
  "nestedFields sample =
     sum_list (map (\<lambda>ob. length (filter (\<lambda>k. isObjectLike (own_prop ob k)) (object_keys ob)))
                 sample)"

definition isDatasetSpec :: "jv \<Rightarrow> bool" where
  "isDatasetSpec json =
     (case json of
        JArr xs \<Rightarrow>
          80 \<le> length xs \<and> 10 \<le> length (datasetSample xs) \<and>
          (of_nat (card (commonKeys (datasetSample xs))) :: rat)
             / of_nat (card (observedKeys (datasetSample xs))) \<ge> 25 / 100 \<and>
          (of_nat (nestedFields (datasetSample xs)) :: rat)
             / of_nat (totalFields (datasetSample xs)) \<le> 25 / 100
      | _ \<Rightarrow> False)"

subsection \<open>Sample data\<close>

definition sampleRecord :: jv where
  "sampleRecord =
     JObj [(''Title'', JStr ''T''), (''Status'', JObj [(''Name'', JStr ''Open'')]),
           (''Items'', JArr [JObj [(''Title'', JStr ''Window detail'')]])]"

definition sampleOtherRecord :: jv where
  "sampleOtherRecord = JObj [(''Other'', JNum 1)]"

text \<open>
  The document \<^verbatim>\<open>{"rows":[{"Id":{"toString":1}}]}\<close>: none of the container keys is present,
  so the document is its own single entry; the \<^verbatim>\<open>Id\<close> of the item in \<^verbatim>\<open>rows\<close> is an object
  that has no primitive value.
\<close>

definition sampleHostileRecord :: jv where
  "sampleHostileRecord =
     JObj [(''rows'', JArr [JObj [(''Id'', JObj [(''toString'', JNum 1)])]])]"

definition sampleTemplateA :: jv where
  "sampleTemplateA =
     JObj [(''templateVersion'', JNum 1), (''templateName'', JStr ''A''),
           (''match'', JObj [(''requiredKeys'', JArr [JStr ''Title''])]),
           (''layout'', JArr [JObj [(''section'', JStr ''Main''), (''fields'', JArr [
              JObj [(''path'', JStr ''Title''), (''label'', JStr ''Title'')],
              JObj [(''path'', JStr ''Status.Name''), (''label'', JStr ''Status'')],
              JObj [(''path'', JStr ''Items[0].Title''), (''label'', JStr ''First'')]])]])]"

definition sampleTemplateB :: jv where
  "sampleTemplateB =
     JObj [(''templateVersion'', JNum 1), (''templateName'', JStr ''B''),
           (''match'', JObj [(''requiredKeys'', JArr [JStr ''Title'', JStr ''Status'', JStr ''Items''])]),
           (''layout'', JArr [JObj [(''section'', JStr ''Main''), (''fields'', JArr [
              JObj [(''path'', JStr ''Title''), (''label'', JStr ''Title'')],
              JObj [(''path'', JStr ''Nope''), (''label'', JStr ''Nope'')]])]])]"

definition sampleTemplateEmpty :: jv where
  "sampleTemplateEmpty =
     JObj [(''templateVersion'', JNum 1), (''templateName'', JStr '' Empty ''),
           (''layout'', JArr [JObj [(''section'', JStr ''Main''), (''fields'', JArr [])],
                             JObj [(''section'', JStr ''More''), (''fields'', JArr [])]])]"

text \<open>A template without a \<^verbatim>\<open>match\<close> block and with one field.\<close>

definition sampleTemplateC :: jv where
  "sampleTemplateC =
     JObj [(''templateVersion'', JNum 1), (''templateName'', JStr ''C''),
           (''layout'', JArr [JObj [(''section'', JStr ''Main''), (''fields'', JArr [
              JObj [(''path'', JStr ''Title''), (''label'', JStr ''Title'')]])]])]"

definition sampleEntry :: "string \<Rightarrow> jv \<Rightarrow> tplEntry" where
  "sampleEntry i t =
     \<lparr>entryId = i, entryName = i, rawText = [], template = t, sourceFileName = []\<rparr>"

definition sampleState :: "string option \<Rightarrow> appState" where
  "sampleState sel =
     \<lparr>templates = [sampleEntry ''b'' sampleTemplateB, sampleEntry ''a'' sampleTemplateA,
                   sampleEntry ''e'' sampleTemplateEmpty],
      activeTemplateId = sel\<rparr>"

text \<open>A template with a single \<^verbatim>\<open>kvlist\<close> field that sets \<^verbatim>\<open>showEmpty\<close>, and a record whose
  only attribute has a name and no value.\<close>

definition sampleKvField :: jv where
  "sampleKvField =
     JObj [(''path'', JStr ''Attrs''), (''label'', JStr ''Attributes''),
           (''format'', JStr ''kvlist''), (''showEmpty'', JBool True)]"

definition sampleKvTemplate :: jv where
  "sampleKvTemplate =
     JObj [(''templateVersion'', JNum 1), (''templateName'', JStr ''Attributes''),
           (''layout'', JArr [JObj [(''section'', JStr ''Main''),
                                   (''fields'', JArr [sampleKvField])]])]"

definition sampleKvRecord :: jv where
  "sampleKvRecord = JObj [(''Attrs'', JArr [JObj [(''Name'', JStr ''Color'')]])]"

text \<open>
  Rows for dataset detection: both kinds share the keys \<^verbatim>\<open>k1\<close> to \<^verbatim>\<open>k8\<close> (\<^verbatim>\<open>k1\<close> holds an
  object), the first kind adds \<^verbatim>\<open>k9\<close>, the second \<^verbatim>\<open>k10\<close>. \<open>sampleRows n\<close> is 13 rows of the
  first kind followed by rows of the second kind, \<open>n\<close> rows in all.
\<close>

definition sampleRowA :: jv where
  "sampleRowA =
     JObj [(''k1'', JObj [(''Name'', JStr ''n'')]), (''k2'', JNum 2), (''k3'', JStr ''c''),
           (''k4'', JNull), (''k5'', JBool True), (''k6'', JNum 6), (''k7'', JStr ''g''),
           (''k8'', JNum 8), (''k9'', JNum 9)]"

definition sampleRowB :: jv where
  "sampleRowB =
     JObj [(''k1'', JObj [(''Name'', JStr ''n'')]), (''k2'', JNum 2), (''k3'', JStr ''c''),
           (''k4'', JNull), (''k5'', JBool True), (''k6'', JNum 6), (''k7'', JStr ''g''),
           (''k8'', JNum 8), (''k10'', JNum 10)]"

definition sampleRows :: "nat \<Rightarrow> jv list" where
  "sampleRows n = replicate 13 sampleRowA @ replicate (n - 13) sampleRowB"

section \<open>Basic facts\<close>

lemma nullish_not_truthy: "nullish v \<Longrightarrow> \<not> truthy v"
  by (cases v) simp_all

lemma isObjectLike_cases: "isObjectLike x = (isMapping x \<or> isArray x)"
  by (cases x) (simp_all add: isObjectLike_def isMapping_def)

lemma isMapping_iff: "isMapping x = (\<exists>kvs. x = JObj kvs)"
  by (cases x) (simp_all add: isMapping_def)

section \<open>Path resolver: totality and traversal\<close>

lemma member_at_ok: "\<not> nullish cur \<Longrightarrow> \<exists>v. member_at h cur t = Inr v"
  by (cases cur; cases t) simp_all

lemma getValueAtPath_loop_ok: "\<exists>v. getValueAtPath_loop h cur ts = Inr v"
proof (induction ts arbitrary: cur)
  case Nil
  show ?case by simp
next
  case (Cons t ts)
  show ?case
  proof (cases "nullish cur")
    case True
    then show ?thesis by simp
  next
    case False
    then obtain v where v: "member_at h cur t = Inr v"
      using member_at_ok by blast
    from Cons.IH [of v] obtain w where "getValueAtPath_loop h v ts = Inr w" ..
    with False v show ?thesis
      by (cases t) simp_all
  qed
qed

text \<open>
  C5. For every value as root and every string as path, well formed or not,
  \<^verbatim>\<open>getValueAtPath\<close> returns a value (possibly \<^verbatim>\<open>undefined\<close>): it never throws.
\<close>

theorem getValueAtPath_never_throws: "\<exists>v. getValueAtPath h obj path = Inr v"
  by (simp add: getValueAtPath_def getValueAtPath_loop_ok)

lemma tokenize_Items_0_Title:
  "tokenize ''Items[0].Title'' = [TName ''Items'', TIndex 0, TName ''Title'']"
  by code_simp

lemma tokenize_Items_0: "tokenize ''Items.0'' = [TName ''Items'', TName ''0'']"
  by code_simp

lemma tokenize_Items_length: "tokenize ''Items.length'' = [TName ''Items'', TName ''length'']"
  by code_simp

lemma array_own_example:
  "array_own [JStr ''x''] ''0'' = Some (JStr ''x'')"
  "array_own [JStr ''x''] ''length'' = Some (JNum 1)"
  by (simp_all add: array_own_def is_index_name_def is_digit_def num_of_digits_def digit_val_def)

lemma is_digit_digit_char: "is_digit (digit_char d)"
  by (simp add: is_digit_def digit_char_def)

lemma digit_val_digit_char: "digit_val (digit_char d) = d mod 10"
  by (simp add: digit_val_def digit_char_def)

lemma dec_digits: "dec n \<noteq> [] \<and> list_all is_digit (dec n)"
proof (induction n rule: dec.induct)
  case (1 n)
  then show ?case
    by (subst dec.simps, subst (2) dec.simps) (simp add: is_digit_digit_char)
qed

lemma num_of_digits_snoc: "num_of_digits (ds @ [c]) = 10 * num_of_digits ds + digit_val c"
  by (simp add: num_of_digits_def)

lemma num_of_digits_dec: "num_of_digits (dec n) = n"
proof (induction n rule: dec.induct)
  case (1 n)
  show ?case
  proof (cases "n < 10")
    case True
    then show ?thesis
      by (subst dec.simps) (simp add: num_of_digits_def digit_val_digit_char)
  next
    case False
    with 1 have "num_of_digits (dec (n div 10)) = n div 10" by simp
    with False show ?thesis
      by (subst dec.simps) (simp add: num_of_digits_snoc digit_val_digit_char)
  qed
qed

lemma not_digit_bracket: "\<not> is_digit CHR '']''"
  by (simp add: is_digit_def)

lemma match_index_dec: "match_index (dec n @ CHR '']'' # rest) = Some (n, rest)"
proof -
  have all: "\<And>x. x \<in> set (dec n) \<Longrightarrow> is_digit x"
    using dec_digits [of n] by (simp add: list_all_iff)
  have t: "takeWhile is_digit (dec n @ CHR '']'' # rest) = dec n"
    using all by (simp add: takeWhile_append2 not_digit_bracket)
  have d: "dropWhile is_digit (dec n @ CHR '']'' # rest) = CHR '']'' # rest"
    using all by (simp add: dropWhile_append2 not_digit_bracket)
  from dec_digits [of n] show ?thesis
    by (simp add: match_index_def Let_def t d num_of_digits_dec)
qed

lemma tokenize_index: "tokenize (CHR ''['' # dec n @ CHR '']'' # rest) = TIndex n # tokenize rest"
  by (simp add: tokenize.simps(2) is_name_char_def match_index_dec)

lemma tokenize_dot: "tokenize (CHR ''.'' # rest) = tokenize rest"
  by (simp add: tokenize.simps(2) is_name_char_def)

lemma tokenize_name:
  assumes "wfName k" and "rest = [] \<or> \<not> is_name_char (hd rest)"
  shows "tokenize (k @ rest) = TName k # tokenize rest"
proof -
  from assms(1) obtain c cs where k: "k = c # cs" and c: "is_name_char c"
    and cs: "\<And>x. x \<in> set cs \<Longrightarrow> is_name_char x"
    by (cases k) (auto simp: wfName_def list_all_iff)
  from assms(2) have r: "takeWhile is_name_char rest = []" "dropWhile is_name_char rest = rest"
    by (cases rest; simp)+
  have "takeWhile is_name_char (cs @ rest) = cs" "dropWhile is_name_char (cs @ rest) = rest"
    using cs r by (simp_all add: takeWhile_append2 dropWhile_append2)
  with k c show ?thesis by (simp add: tokenize.simps(2))
qed

lemma pathTail_start: "pathTail ts = [] \<or> \<not> is_name_char (hd (pathTail ts))"
  by (cases ts rule: pathTail.cases) (simp_all add: is_name_char_def)

lemma tokenize_pathTail: "list_all wfSegment ts \<Longrightarrow> tokenize (pathTail ts) = ts"
proof (induction ts rule: pathTail.induct)
  case 1
  show ?case by simp
next
  case (2 k ts)
  then have "wfName k" and ih: "tokenize (pathTail ts) = ts" by simp_all
  then show ?case using pathTail_start [of ts] by (simp add: tokenize_dot tokenize_name)
next
  case (3 n ts)
  then show ?case by (simp add: tokenize_index)
qed

lemma tokenize_pathText: "list_all wfSegment ts \<Longrightarrow> tokenize (pathText ts) = ts"
proof (cases ts rule: pathText.cases)
  case 1
  then show ?thesis by simp
next
  case (2 k ts')
  assume "list_all wfSegment ts"
  with 2 have "wfName k" "tokenize (pathTail ts') = ts'" by (simp_all add: tokenize_pathTail)
  with 2 show ?thesis using pathTail_start [of ts'] by (simp add: tokenize_name)
next
  case (3 n ts')
  assume "list_all wfSegment ts"
  with 3 show ?thesis by (simp add: tokenize_index tokenize_pathTail)
qed

lemma pathText_empty: "list_all wfSegment ts \<Longrightarrow> (pathText ts = []) = (ts = [])"
  by (cases ts rule: pathText.cases) (simp_all add: wfName_def)

lemma pathText_Items_0_Title: "pathText [TName ''Items'', TIndex 0, TName ''Title''] = ''Items[0].Title''"
  "list_all wfSegment [TName ''Items'', TIndex 0, TName ''Title'']"
  by code_simp+

text \<open>
  C6, as the program has it. Resolution walks the tokens of the path. At each token: a current
  value that is \<^verbatim>\<open>null\<close> or \<^verbatim>\<open>undefined\<close> ends the walk with \<^verbatim>\<open>undefined\<close>; an index token
  on a value that is not an array gives \<^verbatim>\<open>undefined\<close>, on an array it continues with the
  element (\<^verbatim>\<open>undefined\<close> past the end); a name token on a value whose \<^verbatim>\<open>typeof\<close> is not
  \<^verbatim>\<open>'object'\<close> (a string, number or boolean) gives \<^verbatim>\<open>undefined\<close>, on an object it continues
  with the property of that name, and on an array too: with the array's own property of that
  name (an index numeral, \<^verbatim>\<open>length\<close>) or what the array inherits. A well-formed path is
  tokenized into its own segments. The three examples of the specification resolve as it says.
\<close>

theorem getValueAtPath_traversal:
  "getValueAtPath h obj path =
     (if path = [] \<or> nullish obj then Inr JUndefined
      else getValueAtPath_loop h obj (tokenize path)) \<and>
   getValueAtPath_loop h cur [] = Inr cur \<and>
   getValueAtPath_loop h cur (t # ts) =
     (if nullish cur then Inr JUndefined
      else (case t of
          TIndex n \<Rightarrow>
            (case cur of
               JArr xs \<Rightarrow> getValueAtPath_loop h (if n < length xs then xs ! n else JUndefined) ts
             | _ \<Rightarrow> Inr JUndefined)
        | TName k \<Rightarrow>
            (case cur of
               JObj kvs \<Rightarrow>
                 getValueAtPath_loop h (case map_of kvs k of Some v \<Rightarrow> v | None \<Rightarrow> h cur k) ts
             | JArr xs \<Rightarrow>
                 getValueAtPath_loop h (case array_own xs k of Some v \<Rightarrow> v | None \<Rightarrow> h cur k) ts
             | _ \<Rightarrow> Inr JUndefined))) \<and>
   (list_all wfSegment segs \<longrightarrow>
      tokenize (pathText segs) = segs \<and>
      getValueAtPath h obj (pathText segs) =
        (if segs = [] \<or> nullish obj then Inr JUndefined
         else getValueAtPath_loop h obj segs)) \<and>
   getValueAtPath h (JObj [(''Items'', JArr [JObj [(''Title'', JStr ''Window detail'')]])])
     ''Items[0].Title'' = Inr (JStr ''Window detail'') \<and>
   getValueAtPath h (JObj [(''Items'', JArr [])]) ''Items[0].Title'' = Inr JUndefined \<and>
   getValueAtPath h (JObj [(''Items'', JStr ''not-an-array'')]) ''Items[0].Title'' = Inr JUndefined"
proof -
  have wf: "list_all wfSegment segs \<longrightarrow>
      tokenize (pathText segs) = segs \<and>
      getValueAtPath h obj (pathText segs) =
        (if segs = [] \<or> nullish obj then Inr JUndefined
         else getValueAtPath_loop h obj segs)"
    by (simp add: getValueAtPath_def tokenize_pathText pathText_empty)
  have step: "getValueAtPath_loop h cur (t # ts) =
     (if nullish cur then Inr JUndefined
      else (case t of
          TIndex n \<Rightarrow>
            (case cur of
               JArr xs \<Rightarrow> getValueAtPath_loop h (if n < length xs then xs ! n else JUndefined) ts
             | _ \<Rightarrow> Inr JUndefined)
        | TName k \<Rightarrow>
            (case cur of
               JObj kvs \<Rightarrow>
                 getValueAtPath_loop h (case map_of kvs k of Some v \<Rightarrow> v | None \<Rightarrow> h cur k) ts
             | JArr xs \<Rightarrow>
                 getValueAtPath_loop h (case array_own xs k of Some v \<Rightarrow> v | None \<Rightarrow> h cur k) ts
             | _ \<Rightarrow> Inr JUndefined)))"
    by (cases cur; cases t) (simp_all split: option.splits)
  have top: "getValueAtPath h obj path =
     (if path = [] \<or> nullish obj then Inr JUndefined
      else getValueAtPath_loop h obj (tokenize path))"
    by (simp add: getValueAtPath_def)
  have e1: "getValueAtPath h (JObj [(''Items'', JArr [JObj [(''Title'', JStr ''Window detail'')]])])
     ''Items[0].Title'' = Inr (JStr ''Window detail'')"
    by (simp add: getValueAtPath_def tokenize_Items_0_Title)
  have e2: "getValueAtPath h (JObj [(''Items'', JArr [])]) ''Items[0].Title'' = Inr JUndefined"
    by (simp add: getValueAtPath_def tokenize_Items_0_Title)
  have e3: "getValueAtPath h (JObj [(''Items'', JStr ''not-an-array'')]) ''Items[0].Title''
      = Inr JUndefined"
    by (simp add: getValueAtPath_def tokenize_Items_0_Title)
  from top step wf e1 e2 e3 show ?thesis by simp
qed

theorem getValueAtPath_traversal_witness:
  "pathText [TName ''Items'', TIndex 0, TName ''Title''] = ''Items[0].Title'' \<and>
   tokenize ''Items[0].Title'' = [TName ''Items'', TIndex 0, TName ''Title''] \<and>
   getValueAtPath bare (JObj [(''Items'', JArr [JObj [(''Title'', JStr ''Window detail'')]])])
     ''Items[0].Title'' = Inr (JStr ''Window detail'')"
proof -
  have "tokenize (pathText [TName ''Items'', TIndex 0, TName ''Title'']) =
          [TName ''Items'', TIndex 0, TName ''Title''] \<and>
        getValueAtPath bare
          (JObj [(''Items'', JArr [JObj [(''Title'', JStr ''Window detail'')]])])
          (pathText [TName ''Items'', TIndex 0, TName ''Title'']) =
          getValueAtPath_loop bare
            (JObj [(''Items'', JArr [JObj [(''Title'', JStr ''Window detail'')]])])
            [TName ''Items'', TIndex 0, TName ''Title'']"
    using getValueAtPath_traversal
      [of bare "JObj [(''Items'', JArr [JObj [(''Title'', JStr ''Window detail'')]])]" _ _ _ _
          "[TName ''Items'', TIndex 0, TName ''Title'']"]
      pathText_Items_0_Title(2)
    by simp
  moreover have "getValueAtPath_loop bare
            (JObj [(''Items'', JArr [JObj [(''Title'', JStr ''Window detail'')]])])
            [TName ''Items'', TIndex 0, TName ''Title''] = Inr (JStr ''Window detail'')"
    by simp
  ultimately show ?thesis by (simp only: pathText_Items_0_Title(1) simp_thms)
qed

text \<open>
  C6 as stated fails: a name segment on an array does not yield \<^verbatim>\<open>undefined\<close> when the array has
  a property of that name. Against \<^verbatim>\<open>{"Items":["x"]}\<close> the path \<^verbatim>\<open>Items.0\<close> resolves to
  \<^verbatim>\<open>"x"\<close> and the path \<^verbatim>\<open>Items.length\<close> to \<^verbatim>\<open>1\<close>.
\<close>

theorem getValueAtPath_name_on_array_counterexample:
  "\<not> isMapping (JArr [JStr ''x'']) \<and>
   tokenize ''Items.0'' = [TName ''Items'', TName ''0''] \<and>
   getValueAtPath bare (JObj [(''Items'', JArr [JStr ''x''])]) ''Items.0'' = Inr (JStr ''x'') \<and>
   getValueAtPath bare (JObj [(''Items'', JArr [JStr ''x''])]) ''Items.length'' = Inr (JNum 1)"
  by (simp add: getValueAtPath_def tokenize_Items_0 tokenize_Items_length array_own_example
      isMapping_def)

section \<open>Matching with an empty match block\<close>

text \<open>
  C4, as the program has it. For a template (an object) whose match block is empty,
  \<^verbatim>\<open>templateMatchesRecord\<close> is true exactly of the records that are objects or arrays
  (\<^verbatim>\<open>record && typeof record === 'object'\<close>); it is false of a record that is a string,
  a number, a boolean or \<^verbatim>\<open>null\<close>.
\<close>

theorem templateMatchesRecord_empty_match:
  "isObjectLike tpl \<Longrightarrow> matchBlockEmpty tpl \<Longrightarrow>
   templateMatchesRecord h tpl record = Inr (isObjectLike record)"
proof -
  assume t: "isObjectLike tpl" and e: "matchBlockEmpty tpl"
  let ?m = "own_prop tpl ''match''"
  show ?thesis
  proof (cases "nullish ?m")
    case True
    then have "\<not> truthy ?m" by (rule nullish_not_truthy)
    with t show ?thesis by (simp add: templateMatchesRecord_def Let_def)
  next
    case False
    with e have m: "isMapping ?m"
      and rk: "nullish (own_prop ?m ''requiredKeys'') \<or> own_prop ?m ''requiredKeys'' = JArr []"
      and tf: "nullish (own_prop ?m ''typeField'')"
      by (simp_all add: matchBlockEmpty_def Let_def)
    from rk have rk': "(case own_prop ?m ''requiredKeys'' of
                   JArr ks \<Rightarrow> ks \<noteq> [] \<and> \<not> requiredKeysPresent record ks
                 | _ \<Rightarrow> False) = False"
      by (cases "own_prop ?m ''requiredKeys''") auto
    from tf have tf': "(case own_prop ?m ''typeField'' of JStr tf \<Rightarrow> X tf | _ \<Rightarrow> Inr True) = Inr True" for X :: "string \<Rightarrow> error + bool"
      by (cases "own_prop ?m ''typeField''") auto
    from m have "truthy ?m \<and> typeof ?m = Ty_object" by (simp add: isMapping_def)
    with t rk' tf' show ?thesis
      by (simp add: templateMatchesRecord_def Let_def)
  qed
qed

theorem templateMatchesRecord_empty_match_witness:
  "templateMatchesRecord bare (JObj [(''match'', JObj [])]) (JObj []) = Inr True"
  using templateMatchesRecord_empty_match [of "JObj [(''match'', JObj [])]" bare "JObj []"]
  by (simp add: isObjectLike_def matchBlockEmpty_def isMapping_def)

text \<open>
  C4 as stated fails at the record \<^verbatim>\<open>"hello"\<close>, which \<^verbatim>\<open>render\<close> passes when a document is a
  bare string (\<^verbatim>\<open>records[0] || lf.json\<close>).
\<close>

theorem templateMatchesRecord_empty_match_counterexample:
  "matchBlockEmpty (JObj [(''match'', JObj [])]) \<and>
   templateMatchesRecord bare (JObj [(''match'', JObj [])]) (JStr ''hello'') = Inr False"
  by (simp add: isObjectLike_def matchBlockEmpty_def isMapping_def templateMatchesRecord_def)

section \<open>Record extraction\<close>

lemma firstArrayKey_None: "(firstArrayKey json keys = None) = (\<forall>k \<in> set keys. \<not> isArray (own_prop json k))"
  by (induction keys) (auto split: jv.splits)

lemma firstArrayKey_Some:
  "(firstArrayKey json keys = Some (key, arr)) =
   (\<exists>i < length keys. keys ! i = key \<and> own_prop json key = JArr arr \<and>
      (\<forall>j < i. \<not> isArray (own_prop json (keys ! j))))"
proof (induction keys)
  case Nil
  show ?case by simp
next
  case (Cons k ks)
  show ?case
  proof (cases "isArray (own_prop json k)")
    case True
    then obtain a where a: "own_prop json k = JArr a" by (cases "own_prop json k") auto
    show ?thesis
    proof
      assume "firstArrayKey json (k # ks) = Some (key, arr)"
      with a have "k = key" "a = arr" by auto
      with a show "\<exists>i<length (k # ks). (k # ks) ! i = key \<and> own_prop json key = JArr arr \<and>
          (\<forall>j<i. \<not> isArray (own_prop json ((k # ks) ! j)))"
        by (intro exI [of _ 0]) simp
    next
      assume "\<exists>i<length (k # ks). (k # ks) ! i = key \<and> own_prop json key = JArr arr \<and>
          (\<forall>j<i. \<not> isArray (own_prop json ((k # ks) ! j)))"
      then obtain i where i: "i < length (k # ks)" "(k # ks) ! i = key" "own_prop json key = JArr arr"
         "\<forall>j<i. \<not> isArray (own_prop json ((k # ks) ! j))" by blast
      have "i = 0"
      proof (rule ccontr)
        assume "i \<noteq> 0"
        then have "0 < i" by simp
        with i(4) have "\<not> isArray (own_prop json ((k # ks) ! 0))" by blast
        with True show False by simp
      qed
      with i a show "firstArrayKey json (k # ks) = Some (key, arr)" by simp
    qed
  next
    case False
    then have step: "firstArrayKey json (k # ks) = firstArrayKey json ks"
      by (cases "own_prop json k") auto
    show ?thesis
    proof
      assume "firstArrayKey json (k # ks) = Some (key, arr)"
      with step Cons.IH obtain i where i: "i < length ks" "ks ! i = key" "own_prop json key = JArr arr"
         "\<forall>j<i. \<not> isArray (own_prop json (ks ! j))" by auto
      have "\<forall>j<Suc i. \<not> isArray (own_prop json ((k # ks) ! j))"
        using i(4) False by (auto simp: less_Suc_eq_0_disj)
      with i show "\<exists>i<length (k # ks). (k # ks) ! i = key \<and> own_prop json key = JArr arr \<and>
          (\<forall>j<i. \<not> isArray (own_prop json ((k # ks) ! j)))"
        by (intro exI [of _ "Suc i"]) simp
    next
      assume "\<exists>i<length (k # ks). (k # ks) ! i = key \<and> own_prop json key = JArr arr \<and>
          (\<forall>j<i. \<not> isArray (own_prop json ((k # ks) ! j)))"
      then obtain i where i: "i < length (k # ks)" "(k # ks) ! i = key" "own_prop json key = JArr arr"
         "\<forall>j<i. \<not> isArray (own_prop json ((k # ks) ! j))" by blast
      from i(2,3) False have "i \<noteq> 0" by (cases i) auto
      then obtain i' where i': "i = Suc i'" by (cases i) auto
      with i have "i' < length ks" "ks ! i' = key" by auto
      moreover from i(4) i' have "\<forall>j<i'. \<not> isArray (own_prop json (ks ! j))" by auto
      ultimately have "firstArrayKey json ks = Some (key, arr)"
        using Cons.IH i(3) by blast
      with step show "firstArrayKey json (k # ks) = Some (key, arr)" by simp
    qed
  qed
qed

lemma extractRecords_array:
  "extractRecords (JArr xs) = \<lparr>records = filter isObjectLike xs, sourcePath = Some ''$''\<rparr>"
  by (simp add: extractRecords_def)

lemma extractRecords_mapping:
  "extractRecords (JObj kvs) =
     (case firstArrayKey (JObj kvs) candidateKeys of
        Some (key, arr) \<Rightarrow> \<lparr>records = filter isObjectLike arr, sourcePath = Some (''$.'' @ key)\<rparr>
      | None \<Rightarrow> \<lparr>records = [JObj kvs], sourcePath = Some ''$''\<rparr>)"
  by (simp add: extractRecords_def isObjectLike_def)

lemma extractRecords_primitive:
  "\<not> isObjectLike json \<Longrightarrow> extractRecords json = \<lparr>records = [], sourcePath = None\<rparr>"
  by (cases json) (simp_all add: extractRecords_def isObjectLike_def)

text \<open>
  C7, as the program has it. For an array, the records are the elements that are objects or
  arrays (\<^verbatim>\<open>x && typeof x === 'object'\<close>), in order, and the source path is \<^verbatim>\<open>$\<close>. For a
  mapping, the first candidate key whose value is an array gives the records (that array,
  filtered the same way) and the source path \<^verbatim>\<open>$.key\<close>; without such a key the mapping is the
  only record, with source path \<^verbatim>\<open>$\<close>. Anything else gives no record and no source path. The
  three examples of the specification come out as it says.
\<close>

theorem extractRecords_shapes:
  "extractRecords (JArr xs) = \<lparr>records = filter isObjectLike xs, sourcePath = Some ''$''\<rparr> \<and>
   isObjectLike x = (isMapping x \<or> isArray x) \<and>
   ((\<exists>i < length candidateKeys. candidateKeys ! i = key \<and> own_prop (JObj kvs) key = JArr arr \<and>
        (\<forall>j < i. \<not> isArray (own_prop (JObj kvs) (candidateKeys ! j)))) \<longrightarrow>
      extractRecords (JObj kvs) =
        \<lparr>records = filter isObjectLike arr, sourcePath = Some (''$.'' @ key)\<rparr>) \<and>
   ((\<forall>k \<in> set candidateKeys. \<not> isArray (own_prop (JObj kvs) k)) \<longrightarrow>
      extractRecords (JObj kvs) = \<lparr>records = [JObj kvs], sourcePath = Some ''$''\<rparr>) \<and>
   (\<not> isObjectLike json \<longrightarrow> extractRecords json = \<lparr>records = [], sourcePath = None\<rparr>) \<and>
   extractRecords
     (JObj [(''issues'', JArr [JObj [(''Title'', JStr ''A'')], JObj [(''Title'', JStr ''B'')]])]) =
     \<lparr>records = [JObj [(''Title'', JStr ''A'')], JObj [(''Title'', JStr ''B'')]],
      sourcePath = Some ''$.issues''\<rparr> \<and>
   extractRecords (JArr [JNum 1, JNum 2, JObj [(''a'', JNum 1)]]) =
     \<lparr>records = [JObj [(''a'', JNum 1)]], sourcePath = Some ''$''\<rparr> \<and>
   extractRecords (JStr ''hello'') = \<lparr>records = [], sourcePath = None\<rparr>"
proof -
  have a: "(\<exists>i < length candidateKeys. candidateKeys ! i = key \<and> own_prop (JObj kvs) key = JArr arr \<and>
        (\<forall>j < i. \<not> isArray (own_prop (JObj kvs) (candidateKeys ! j)))) \<longrightarrow>
      extractRecords (JObj kvs) =
        \<lparr>records = filter isObjectLike arr, sourcePath = Some (''$.'' @ key)\<rparr>"
  proof
    assume "\<exists>i < length candidateKeys. candidateKeys ! i = key \<and>
        own_prop (JObj kvs) key = JArr arr \<and>
        (\<forall>j < i. \<not> isArray (own_prop (JObj kvs) (candidateKeys ! j)))"
    then have "firstArrayKey (JObj kvs) candidateKeys = Some (key, arr)"
      by (simp only: firstArrayKey_Some)
    then show "extractRecords (JObj kvs) =
        \<lparr>records = filter isObjectLike arr, sourcePath = Some (''$.'' @ key)\<rparr>"
      by (simp add: extractRecords_mapping)
  qed
  have b: "(\<forall>k \<in> set candidateKeys. \<not> isArray (own_prop (JObj kvs) k)) \<longrightarrow>
      extractRecords (JObj kvs) = \<lparr>records = [JObj kvs], sourcePath = Some ''$''\<rparr>"
  proof
    assume "\<forall>k \<in> set candidateKeys. \<not> isArray (own_prop (JObj kvs) k)"
    then have "firstArrayKey (JObj kvs) candidateKeys = None"
      by (simp only: firstArrayKey_None)
    then show "extractRecords (JObj kvs) = \<lparr>records = [JObj kvs], sourcePath = Some ''$''\<rparr>"
      by (simp add: extractRecords_mapping)
  qed
  have c: "extractRecords
     (JObj [(''issues'', JArr [JObj [(''Title'', JStr ''A'')], JObj [(''Title'', JStr ''B'')]])]) =
     \<lparr>records = [JObj [(''Title'', JStr ''A'')], JObj [(''Title'', JStr ''B'')]],
      sourcePath = Some ''$.issues''\<rparr>"
    by (simp add: extractRecords_def isObjectLike_def candidateKeys_def)
  have d: "extractRecords (JArr [JNum 1, JNum 2, JObj [(''a'', JNum 1)]]) =
     \<lparr>records = [JObj [(''a'', JNum 1)]], sourcePath = Some ''$''\<rparr>"
    by (simp add: extractRecords_def isObjectLike_def)
  have e: "extractRecords (JStr ''hello'') = \<lparr>records = [], sourcePath = None\<rparr>"
    by (simp add: extractRecords_def isObjectLike_def)
  from a b c d e extractRecords_array [of xs] isObjectLike_cases [of x]
    extractRecords_primitive [of json]
  show ?thesis by blast
qed

theorem extractRecords_shapes_witness:
  "extractRecords (JObj [(''data'', JNum 1), (''Items'', JArr [JNum 7, JArr [], JObj []])]) =
     \<lparr>records = [JArr [], JObj []], sourcePath = Some ''$.Items''\<rparr> \<and>
   extractRecords (JObj [(''data'', JNum 1)]) =
     \<lparr>records = [JObj [(''data'', JNum 1)]], sourcePath = Some ''$''\<rparr> \<and>
   extractRecords JNull = \<lparr>records = [], sourcePath = None\<rparr>"
proof -
  have i: "\<exists>i < length candidateKeys. candidateKeys ! i = ''Items'' \<and>
      own_prop (JObj [(''data'', JNum 1), (''Items'', JArr [JNum 7, JArr [], JObj []])]) ''Items''
        = JArr [JNum 7, JArr [], JObj []] \<and>
      (\<forall>j < i. \<not> isArray (own_prop
          (JObj [(''data'', JNum 1), (''Items'', JArr [JNum 7, JArr [], JObj []])])
          (candidateKeys ! j)))"
    by (intro exI [of _ 11]) (simp add: candidateKeys_def nth_Cons' less_Suc_eq)
  have n: "\<forall>k \<in> set candidateKeys. \<not> isArray (own_prop (JObj [(''data'', JNum 1)]) k)"
    by (simp add: candidateKeys_def)
  have p: "\<not> isObjectLike JNull" by (simp add: isObjectLike_def)
  from extractRecords_shapes
         [of "[]" JNull "''Items''" "[(''data'', JNum 1), (''Items'', JArr [JNum 7, JArr [], JObj []])]"
             "[JNum 7, JArr [], JObj []]" JNull] i
  have 1: "extractRecords (JObj [(''data'', JNum 1), (''Items'', JArr [JNum 7, JArr [], JObj []])]) =
     \<lparr>records = filter isObjectLike [JNum 7, JArr [], JObj []], sourcePath = Some (''$.'' @ ''Items'')\<rparr>"
    by blast
  from extractRecords_shapes [of "[]" JNull "''x''" "[(''data'', JNum 1)]" "[]" JNull] n p
  have 2: "extractRecords (JObj [(''data'', JNum 1)]) =
     \<lparr>records = [JObj [(''data'', JNum 1)]], sourcePath = Some ''$''\<rparr>"
    and 3: "extractRecords JNull = \<lparr>records = [], sourcePath = None\<rparr>"
    by blast+
  from 1 2 3 show ?thesis by (simp add: isObjectLike_def)
qed

text \<open>
  C7 as stated fails: an element that is an array is not a mapping, and it is kept.
\<close>

theorem extractRecords_keeps_arrays_counterexample:
  "\<not> isMapping (JArr [JNum 1, JNum 2]) \<and>
   records (extractRecords (JArr [JArr [JNum 1, JNum 2], JNum 3])) = [JArr [JNum 1, JNum 2]] \<and>
   records (extractRecords (JObj [(''items'', JArr [JArr [JNum 1, JNum 2], JNum 3])])) =
     [JArr [JNum 1, JNum 2]]"
  by (simp add: extractRecords_def isObjectLike_def isMapping_def candidateKeys_def)

section \<open>Document-level classification\<close>

lemma remdups_single:
  "(length (remdups xs) = Suc 0) = (xs \<noteq> [] \<and> (\<forall>x \<in> set xs. x = hd xs))"
proof
  assume "length (remdups xs) = Suc 0"
  then have "card (set xs) = 1" by (simp add: length_remdups_card_conv)
  then obtain a where a: "set xs = {a}" by (auto simp: card_1_singleton_iff)
  then have ne: "xs \<noteq> []" by auto
  then have "hd xs \<in> set xs" by simp
  with a have "hd xs = a" by simp
  with a ne show "xs \<noteq> [] \<and> (\<forall>x \<in> set xs. x = hd xs)" by simp
next
  assume h: "xs \<noteq> [] \<and> (\<forall>x \<in> set xs. x = hd xs)"
  then have "set xs = {hd xs}" by auto
  then have "card (set xs) = 1" by simp
  then show "length (remdups xs) = Suc 0" by (simp add: length_remdups_card_conv)
qed

lemma hd_remdups_single:
  assumes "length (remdups xs) = Suc 0"
  shows "hd (remdups xs) = hd xs"
proof -
  from assms have xs: "xs \<noteq> []" "\<forall>x \<in> set xs. x = hd xs"
    using remdups_single [of xs] by blast+
  from assms have "remdups xs \<noteq> []" by auto
  then have "hd (remdups xs) \<in> set (remdups xs)" by (rule hd_in_set)
  then have "hd (remdups xs) \<in> set xs" by simp
  with xs show ?thesis by blast
qed

text \<open>
  C9. \<^verbatim>\<open>detectRecordType\<close> extracts the records and classifies each; when there is at least
  one record and every record classifies as the first one does, the answer is that type; with
  no record, or with two records of different types, the answer is Generic.
\<close>

theorem detectRecordType_shared_type:
  "detectRecordType json =
     (let recs = records (extractRecords json) in
      if recs \<noteq> [] \<and>
         (\<forall>r \<in> set recs. detectRecordTypeFromObject r = detectRecordTypeFromObject (hd recs))
      then detectRecordTypeFromObject (hd recs)
      else Generic)"
proof -
  define recs where "recs = records (extractRecords json)"
  define ts where "ts = map detectRecordTypeFromObject recs"
  have d: "detectRecordType json =
      (if recs = [] then Generic
       else if length (remdups ts) = Suc 0 then hd (remdups ts) else Generic)"
    by (simp add: detectRecordType_def Let_def recs_def ts_def)
  have single: "(length (remdups ts) = Suc 0) =
      (recs \<noteq> [] \<and>
       (\<forall>r \<in> set recs. detectRecordTypeFromObject r = detectRecordTypeFromObject (hd recs)))"
  proof (cases recs)
    case Nil
    then show ?thesis by (simp add: ts_def)
  next
    case (Cons r rs)
    then have "ts \<noteq> []" and "hd ts = detectRecordTypeFromObject (hd recs)"
      and "set ts = detectRecordTypeFromObject ` set recs"
      by (simp_all add: ts_def)
    moreover from Cons have "recs \<noteq> []" by simp
    ultimately show ?thesis
      by (simp add: remdups_single)
  qed
  have "detectRecordType json =
      (if recs \<noteq> [] \<and>
          (\<forall>r \<in> set recs. detectRecordTypeFromObject r = detectRecordTypeFromObject (hd recs))
       then detectRecordTypeFromObject (hd recs)
       else Generic)"
  proof (cases "length (remdups ts) = Suc 0")
    case True
    then have "hd (remdups ts) = hd ts" by (rule hd_remdups_single)
    moreover from True single have ne: "recs \<noteq> []" by blast
    then have "hd ts = detectRecordTypeFromObject (hd recs)" by (simp add: ts_def hd_map)
    ultimately show ?thesis using True single ne d by presburger
  next
    case False
    with single d show ?thesis by presburger
  qed
  then show ?thesis by (simp only: Let_def recs_def)
qed

lemma classify_ex1: "detectRecordTypeFromObject (JObj [(''type'', JStr ''Issue'')]) = Issue"
  by code_simp
lemma classify_ex2: "detectRecordTypeFromObject (JObj [(''Question'', JStr ''Why?''), (''Answer'', JStr ''Because'')]) = RFI"
  by code_simp
lemma classify_ex3: "detectRecordTypeFromObject (JObj [(''Type'', JStr '' My ISSUES ''), (''Answer'', JStr ''x'')]) = Issue"
  by code_simp

theorem detectRecordType_shared_type_witness:
  "detectRecordType (JObj [(''items'', JArr [JObj [(''type'', JStr ''Issue'')],
       JObj [(''Type'', JStr '' My ISSUES ''), (''Answer'', JStr ''x'')]])]) = Issue \<and>
   detectRecordType (JArr [JObj [(''type'', JStr ''Issue'')],
       JObj [(''Question'', JStr ''Why?''), (''Answer'', JStr ''Because'')]]) = Generic \<and>
   detectRecordType (JStr ''hello'') = Generic"
proof -
  have r1: "records (extractRecords (JObj [(''items'', JArr [JObj [(''type'', JStr ''Issue'')],
       JObj [(''Type'', JStr '' My ISSUES ''), (''Answer'', JStr ''x'')]])])) =
       [JObj [(''type'', JStr ''Issue'')], JObj [(''Type'', JStr '' My ISSUES ''), (''Answer'', JStr ''x'')]]"
    by (simp add: extractRecords_def isObjectLike_def candidateKeys_def)
  have r2: "records (extractRecords (JArr [JObj [(''type'', JStr ''Issue'')],
       JObj [(''Question'', JStr ''Why?''), (''Answer'', JStr ''Because'')]])) =
       [JObj [(''type'', JStr ''Issue'')], JObj [(''Question'', JStr ''Why?''), (''Answer'', JStr ''Because'')]]"
    by (simp add: extractRecords_def isObjectLike_def)
  have r3: "records (extractRecords (JStr ''hello'')) = []"
    by (simp add: extractRecords_def isObjectLike_def)
  show ?thesis
    using detectRecordType_shared_type [of "JObj [(''items'', JArr [JObj [(''type'', JStr ''Issue'')],
       JObj [(''Type'', JStr '' My ISSUES ''), (''Answer'', JStr ''x'')]])]"]
      detectRecordType_shared_type [of "JArr [JObj [(''type'', JStr ''Issue'')],
       JObj [(''Question'', JStr ''Why?''), (''Answer'', JStr ''Because'')]]"]
      detectRecordType_shared_type [of "JStr ''hello''"]
    by (simp add: r1 r2 r3 classify_ex1 classify_ex2 classify_ex3 Let_def)
qed

section \<open>Rendering a value\<close>

text \<open>
  Rendering throws only through a conversion to string. A value in which no object has a key
  \<^verbatim>\<open>toString\<close> always renders.
\<close>

lemma bindE_Inr: "bindE (Inr v) f = f v"
  by (simp add: bindE_def)

lemma bindE_Inl: "bindE (Inl e) f = Inl e"
  by (simp add: bindE_def)

lemma renderKV_text:
  "s \<noteq> [] \<Longrightarrow> renderKV srt k (JStr s) noOpts = Inr (Some (KvRow k (EscapedText s)))"
  by (simp add: renderKV.simps renderValue.simps noOpts_def bindE_def)

lemma tplNameOf_nonempty: "tplNameOf t \<noteq> []"
  by (cases "own_prop t ''templateName''") (simp_all add: tplNameOf_def)

lemma to_string_safe:
  "noToStringKey v \<Longrightarrow> \<exists>s. to_string v = Inr s"
  "list_all noToStringKey xs \<Longrightarrow> \<exists>s. join_elems xs = Inr s"
proof (induction v and xs rule: to_string_join_elems.induct)
  case (10 x xs)
  from "10.prems" have nx: "noToStringKey x" and nxs: "list_all noToStringKey xs" by simp_all
  obtain s where s: "(if nullish x then Inr [] else to_string x) = Inr s"
    using "10.IH"(1) nx by (cases "nullish x") auto
  show ?case
  proof (cases "xs = []")
    case True
    with s show ?thesis by simp
  next
    case False
    with "10.IH"(2) s nxs obtain r where "join_elems xs = Inr r" by blast
    with s False show ?thesis by simp
  qed
qed auto

lemma noToStringKey_own_prop: "noToStringKey obj \<Longrightarrow> noToStringKey (own_prop obj k)"
proof (cases obj)
  case (JObj kvs)
  assume a: "noToStringKey obj"
  show ?thesis
  proof (cases "map_of kvs k")
    case None
    with JObj show ?thesis by simp
  next
    case (Some v)
    then have "(k, v) \<in> set kvs" by (rule map_of_SomeD)
    then have "v \<in> snd ` set kvs" by force
    with a JObj have "noToStringKey v" by (auto simp: list_all_iff)
    with JObj Some show ?thesis by simp
  qed
next
  case (JArr xs)
  assume a: "noToStringKey obj"
  show ?thesis
  proof (cases "array_own xs k")
    case None
    with JArr show ?thesis by simp
  next
    case (Some v)
    then have "v \<in> set xs \<or> v = JNum (int (length xs))"
      by (auto simp: array_own_def split: if_splits)
    with a JArr have "noToStringKey v" by (auto simp: list_all_iff)
    with JArr Some show ?thesis by simp
  qed
qed simp_all

lemma noToStringKey_pickFirst_loop: "noToStringKey obj \<Longrightarrow> noToStringKey (pickFirst_loop obj keys)"
  by (induction keys) (simp_all add: noToStringKey_own_prop)

lemma noToStringKey_pickFirst: "noToStringKey obj \<Longrightarrow> noToStringKey (pickFirst obj keys)"
  by (simp add: pickFirst_def noToStringKey_pickFirst_loop)

lemma buildItemSummary_safe:
  assumes "noToStringKey obj"
  shows "\<exists>bits. buildItemSummary obj idx = Inr bits"
proof -
  obtain s1 where s1: "to_string (pickFirst obj [''Id'', ''id'', ''ID'', ''uid'', ''guid'', ''uuid'']) = Inr s1"
    using to_string_safe(1) [OF noToStringKey_pickFirst [OF assms]] by blast
  obtain s2 where s2: "to_string (pickFirst obj [''Number'', ''number'', ''No'', ''no'', ''code'', ''Code'']) = Inr s2"
    using to_string_safe(1) [OF noToStringKey_pickFirst [OF assms]] by blast
  show ?thesis
    by (simp add: buildItemSummary_def Let_def bindE_def s1 s2)
qed

lemma mapE_returns:
  "(\<And>x. x \<in> set xs \<Longrightarrow> \<exists>y. f x = Inr y) \<Longrightarrow> \<exists>ys. mapE f xs = Inr ys"
proof (induction xs)
  case Nil
  show ?case by simp
next
  case (Cons x xs)
  then obtain y where y: "f x = Inr y" by force
  from Cons obtain ys where "mapE f xs = Inr ys" by force
  with y show ?case by simp
qed

lemma render_safe:
  "noToStringKey v \<Longrightarrow> \<exists>m. renderValue srt v ob = Inr m"
  "noToStringKey v \<Longrightarrow> \<exists>r. renderKV srt key v ob = Inr r"
  "noToStringKey obj \<Longrightarrow> \<exists>rs. renderObjectAsKv srt obj = Inr rs"
  "noToStringKey arr \<Longrightarrow> \<exists>items. renderArrayAsList srt arr = Inr items"
  "noToStringKey item \<Longrightarrow> \<exists>m. renderArrayItem srt item idx = Inr m"
proof (induction srt v ob and srt key v ob and srt obj and srt arr and srt item idx
       rule: renderValue_renderKV_renderObjectAsKv_renderArrayAsList_renderArrayItem.induct)
  case (1 srt v ob)
  show ?case
  proof (cases v)
    case (JArr xs)
    show ?thesis
    proof (cases "opt_collapsible ob")
      case True
      with "1.IH"(1) [OF _ JArr] "1.prems" JArr obtain body where "renderArrayAsList srt v = Inr body"
        by auto
      with True JArr show ?thesis by (simp add: renderValue.simps bindE_Inr)
    next
      case False
      with JArr show ?thesis by (simp add: renderValue.simps)
    qed
  next
    case (JObj kvs)
    show ?thesis
    proof (cases "opt_collapsible ob")
      case True
      with "1.IH"(2) [OF _ JObj] "1.prems" JObj obtain body where "renderObjectAsKv srt v = Inr body"
        by auto
      with True JObj show ?thesis by (simp add: renderValue.simps bindE_Inr)
    next
      case False
      with JObj show ?thesis by (simp add: renderValue.simps)
    qed
  qed (simp_all add: renderValue.simps bindE_Inr)
next
  case (2 srt key v ob)
  then obtain m where "renderValue srt v ob = Inr m" by blast
  then show ?case by (simp add: renderKV.simps bindE_Inr)
next
  case (3 srt obj)
  show ?case
  proof (cases "isMapping obj \<and> object_keys obj \<noteq> []")
    case True
    have "\<exists>rows. mapE (\<lambda>k. renderKV srt k (own_prop obj k) (kvOpts k (own_prop obj k)))
             (sortedKeys srt (object_keys obj)) = Inr rows"
    proof (rule mapE_returns)
      fix k
      from "3.IH" True noToStringKey_own_prop [OF "3.prems"]
      show "\<exists>y. renderKV srt k (own_prop obj k) (kvOpts k (own_prop obj k)) = Inr y" by blast
    qed
    with True show ?thesis by (auto simp: renderObjectAsKv.simps bindE_Inr)
  next
    case False
    then show ?thesis by (auto simp: renderObjectAsKv.simps)
  qed
next
  case (4 srt arr)
  show ?case
  proof (cases arr)
    case (JArr xs)
    show ?thesis
    proof (cases "xs = []")
      case True
      with JArr show ?thesis by (simp add: renderArrayAsList.simps)
    next
      case False
      have "\<exists>items. mapE (\<lambda>idx. renderArrayItem srt (itemAt xs idx) idx)
               [0..<min (length xs) 50] = Inr items"
      proof (rule mapE_returns)
        fix idx
        from "4.prems" JArr have "noToStringKey (itemAt xs idx)"
          by (simp add: itemAt_def list_all_length)
        with "4.IH" [OF JArr False refl]
        show "\<exists>y. renderArrayItem srt (itemAt xs idx) idx = Inr y" by blast
      qed
      with JArr False show ?thesis by (auto simp: renderArrayAsList.simps bindE_Inr Let_def)
    qed
  qed (simp_all add: renderArrayAsList.simps)
next
  case (5 srt item idx)
  show ?case
  proof (cases "nullish item \<or> typeof item \<noteq> Ty_object")
    case True
    with "5.IH"(1) "5.prems" obtain row where "renderKV srt (indexLabel idx) item noOpts = Inr row"
      by blast
    with True show ?thesis by (simp add: renderArrayItem.simps bindE_Inr)
  next
    case False
    show ?thesis
    proof (cases "isArray item")
      case True
      with "5.IH"(2) False "5.prems" obtain row
        where "renderKV srt (indexLabel idx) item collapsibleOpts = Inr row"
        by blast
      with True False show ?thesis by (simp add: renderArrayItem.simps bindE_Inr)
    next
      case na: False
      from buildItemSummary_safe [OF "5.prems"] obtain bits
        where b: "buildItemSummary item idx = Inr bits" by blast
      with "5.IH"(3) False na "5.prems" obtain rows where "renderObjectAsKv srt item = Inr rows"
        by blast
      with b False na show ?thesis by (simp add: renderArrayItem.simps bindE_Inr)
    qed
  qed
qed

section \<open>Zero field hits\<close>

lemma ok_invalid: "ok (invalid m) = False"
  by (simp add: invalid_def)

lemma ok_valid: "ok valid = True"
  by (simp add: valid_def)

lemma validated_shape:
  assumes "ok (validateTemplate t)"
  shows "isMapping t"
    and "\<exists>layout. own_prop t ''layout'' = JArr layout"
    and "\<exists>name. own_prop t ''templateName'' = JStr name \<and> trim name \<noteq> []"
proof -
  from assms have np: "\<not> notPlainObject t"
    by (auto simp: validateTemplate_def ok_invalid split: if_splits)
  then show "isMapping t" by (simp add: notPlainObject_def isMapping_def)
  from assms np have nm: "\<not> notNonEmptyString (own_prop t ''templateName'')"
    by (auto simp: validateTemplate_def ok_invalid split: if_splits)
  then show "\<exists>name. own_prop t ''templateName'' = JStr name \<and> trim name \<noteq> []"
    by (cases "own_prop t ''templateName''") auto
  from assms np nm show "\<exists>layout. own_prop t ''layout'' = JArr layout"
    by (cases "own_prop t ''layout''") (auto simp: validateTemplate_def ok_invalid split: if_splits)
qed

lemma isMapping_isObjectLike: "isMapping t \<Longrightarrow> isObjectLike t"
  by (simp add: isMapping_def isObjectLike_def)

lemma zero_hits_card:
  assumes "isObjectLike t" and "own_prop t ''layout'' = JArr layout"
    and "countTemplateFieldHits h t record = Inr 0"
  shows "renderTemplateRecordView h srt rtf rgp t record =
           (case renderKV srt ''Record'' record collapsibleOpts of
              Inl e \<Rightarrow> Inl e
            | Inr row \<Rightarrow> Inr (noFieldsCard (tplNameOf t) row))"
proof -
  have r: "\<And>k s f. s \<noteq> [] \<Longrightarrow>
      bindE (renderKV srt k (JStr s) noOpts) f = f (Some (KvRow k (EscapedText s)))"
    by (simp add: renderKV_text bindE_def)
  from assms have "renderTemplateRecordView h srt rtf rgp t record =
      bindE (renderKV srt ''Record'' record collapsibleOpts) (\<lambda>r5.
        Inr (noFieldsCard (tplNameOf t) r5))"
    by (simp add: renderTemplateRecordView_def bindE_Inr r tplNameOf_nonempty noFieldsCard_def
          List.map_filter_simps cong: option.case_cong)
  then show ?thesis
    by (cases "renderKV srt ''Record'' record collapsibleOpts") (simp_all add: bindE_Inr bindE_Inl)
qed

lemma isObjectLike_truthy: "isObjectLike t \<Longrightarrow> truthy t"
  by (simp add: isObjectLike_def)

lemma countFields_nil: "countFields h record [] n = Inr n"
  by simp

lemma countSections_empty_fields:
  "list_all (\<lambda>sec. own_prop sec ''fields'' = JArr []) layout \<Longrightarrow>
   countSections h record layout n = Inr n"
  by (induction layout) (simp_all add: sectionFields_def)

lemma allFieldsEmpty_no_hits:
  "allFieldsEmpty t \<Longrightarrow> countTemplateFieldHits h t record = Inr 0"
  by (cases "own_prop t ''layout''")
     (simp_all add: allFieldsEmpty_def countTemplateFieldHits_def countSections_empty_fields)

lemma allFieldsEmpty_layout: "allFieldsEmpty t \<Longrightarrow> \<exists>layout. own_prop t ''layout'' = JArr layout"
  by (cases "own_prop t ''layout''") (simp_all add: allFieldsEmpty_def)

lemma sample_validated:
  "validateTemplate sampleTemplateA = valid"
  "validateTemplate sampleTemplateB = valid"
  "validateTemplate sampleTemplateEmpty = valid"
  "validateTemplate sampleKvTemplate = valid"
  by code_simp+


text \<open>
  What the template-driven renderer does with no hit, for every validated template and every
  record: it builds the card "No fields from this template were found", which names the
  template, explains, and ends with the full record rendered collapsed, and it returns that
  card exactly when the rendering of the record returns; a TypeError thrown while the record is
  rendered leaves the renderer in place of the card. The rendering returns for every record in
  which no object has a key \<^verbatim>\<open>toString\<close>. \<^verbatim>\<open>renderRecordView\<close>, which hands an active template
  to that renderer, does the same.
\<close>

lemma zero_hits_card_or_error:
  assumes "ok (validateTemplate t)"
    and "countTemplateFieldHits h t record = Inr 0"
  shows "renderTemplateRecordView h srt rtf rgp t record =
           (case renderKV srt ''Record'' record collapsibleOpts of
              Inl err \<Rightarrow> Inl TypeError
            | Inr row \<Rightarrow> Inr (noFieldsCard (tplNameOf t) row)) \<and>
         renderRecordView h srt rtf rgp rit recordType record t =
           (case renderKV srt ''Record'' record collapsibleOpts of
              Inl err \<Rightarrow> Inl TypeError
            | Inr row \<Rightarrow> Inr (noFieldsCard (tplNameOf t) row)) \<and>
         (noToStringKey record \<longrightarrow>
            (\<exists>row. renderTemplateRecordView h srt rtf rgp t record =
                     Inr (noFieldsCard (tplNameOf t) row) \<and>
                   renderRecordView h srt rtf rgp rit recordType record t =
                     Inr (noFieldsCard (tplNameOf t) row))) \<and>
         (\<exists>name. own_prop t ''templateName'' = JStr name \<and> tplNameOf t = trim name \<and>
                 trim name \<noteq> [])"
proof -
  from assms(1) have m: "isObjectLike t" by (simp add: validated_shape(1) isMapping_isObjectLike)
  from assms(1) obtain layout where l: "own_prop t ''layout'' = JArr layout"
    using validated_shape(2) by blast
  from assms(1) obtain name where n: "own_prop t ''templateName'' = JStr name" "trim name \<noteq> []"
    using validated_shape(3) by blast
  have c: "renderTemplateRecordView h srt rtf rgp t record =
           (case renderKV srt ''Record'' record collapsibleOpts of
              Inl err \<Rightarrow> Inl err
            | Inr row \<Rightarrow> Inr (noFieldsCard (tplNameOf t) row))"
    using m l assms(2) by (rule zero_hits_card)
  have c1: "renderTemplateRecordView h srt rtf rgp t record =
           (case renderKV srt ''Record'' record collapsibleOpts of
              Inl err \<Rightarrow> Inl TypeError
            | Inr row \<Rightarrow> Inr (noFieldsCard (tplNameOf t) row))"
  proof (cases "renderKV srt ''Record'' record collapsibleOpts")
    case (Inl err)
    then show ?thesis unfolding c by (cases err) simp
  next
    case (Inr row)
    then show ?thesis unfolding c by simp
  qed
  from m have v: "renderRecordView h srt rtf rgp rit recordType record t =
           renderTemplateRecordView h srt rtf rgp t record"
    by (simp add: renderRecordView_def isObjectLike_truthy)
  with c1 have c2: "renderRecordView h srt rtf rgp rit recordType record t =
           (case renderKV srt ''Record'' record collapsibleOpts of
              Inl err \<Rightarrow> Inl TypeError
            | Inr row \<Rightarrow> Inr (noFieldsCard (tplNameOf t) row))"
    by simp
  have c3: "noToStringKey record \<longrightarrow>
            (\<exists>row. renderTemplateRecordView h srt rtf rgp t record =
                     Inr (noFieldsCard (tplNameOf t) row) \<and>
                   renderRecordView h srt rtf rgp rit recordType record t =
                     Inr (noFieldsCard (tplNameOf t) row))"
  proof
    assume "noToStringKey record"
    then obtain row where "renderKV srt ''Record'' record collapsibleOpts = Inr row"
      using render_safe(2) by blast
    with c v show "\<exists>row. renderTemplateRecordView h srt rtf rgp t record =
                     Inr (noFieldsCard (tplNameOf t) row) \<and>
                   renderRecordView h srt rtf rgp rit recordType record t =
                     Inr (noFieldsCard (tplNameOf t) row)"
      by auto
  qed
  from n have "tplNameOf t = trim name" by (simp add: tplNameOf_def)
  with n have c4: "\<exists>name. own_prop t ''templateName'' = JStr name \<and> tplNameOf t = trim name \<and>
                 trim name \<noteq> []"
    by simp
  from c1 c2 c3 c4 show ?thesis by blast
qed

text \<open>
  C2. The claim holds for the records whose rendering returns and fails for the program at the
  document \<^verbatim>\<open>{"rows":[{"Id":{"toString":1}}]}\<close>. The document is its own single entry; a
  validated template without a \<^verbatim>\<open>match\<close> block matches it and has no hit on it; the card is
  built, and its last row renders the entry: the title of the item of \<^verbatim>\<open>rows\<close> needs
  \<^verbatim>\<open>String(id)\<close> (\<^verbatim>\<open>buildItemSummary\<close>, app.js 3144), the \<^verbatim>\<open>Id\<close> is an object without a
  primitive value, and the TypeError leaves \<^verbatim>\<open>renderRecordView\<close>: no card is returned. For
  the entry \<^verbatim>\<open>{"Other":1}\<close> the same template gives the card.
\<close>

theorem zero_hits_render_throws:
  "countTemplateFieldHits bare sampleTemplateC sampleHostileRecord = Inr 0 \<and>
   renderKV (\<lambda>ks. ks) ''Record'' sampleHostileRecord collapsibleOpts = Inl TypeError \<and>
   renderTemplateRecordView bare (\<lambda>ks. ks) (\<lambda>r f. Inr []) (\<lambda>r. Inr []) sampleTemplateC
     sampleHostileRecord = Inl TypeError \<and>
   renderRecordView bare (\<lambda>ks. ks) (\<lambda>r f. Inr []) (\<lambda>r. Inr []) (\<lambda>r. Inr []) Generic
     sampleHostileRecord sampleTemplateC = Inl TypeError \<and>
   countTemplateFieldHits bare sampleTemplateC sampleOtherRecord = Inr 0 \<and>
   renderRecordView bare (\<lambda>ks. ks) (\<lambda>r f. Inr []) (\<lambda>r. Inr []) (\<lambda>r. Inr []) Generic
     sampleOtherRecord sampleTemplateC =
     Inr (noFieldsCard ''C''
            (Some (KvRow ''Record'' (ValueObject 1 [KvRow ''Other'' (EscapedText ''1'')]))))"
  by code_simp

text \<open>The document and the template of that evaluation are ones the program can receive.\<close>

lemma sampleTemplateC_hostile:
  "validateTemplate sampleTemplateC = valid"
  "records (extractRecords sampleHostileRecord) = [sampleHostileRecord]"
  "templateMatchesRecord bare sampleTemplateC sampleHostileRecord = Inr True"
  by code_simp+

section \<open>Template selection\<close>






lemma loop_step_cand:
  "candidate h record e \<Longrightarrow>
   getBestTemplateForRecord_loop h record (e # es) best bs =
   (if scoreOf h record e > bs
    then getBestTemplateForRecord_loop h record es (Some (mkResolved e)) (scoreOf h record e)
    else getBestTemplateForRecord_loop h record es best bs)"
  by (auto simp: candidate_def scoreOf_def hitsOf_def mkResolved_def split: sum.splits)





lemma loop_result:
  "getBestTemplateForRecord_loop h record es best bs = Inr (Some res) \<Longrightarrow>
   Some res = best \<or>
   (\<exists>e \<in> set es. res = mkResolved e \<and>
      (\<exists>n. countTemplateFieldHits h (template e) record = Inr n \<and> 0 < n))"
proof (induction es arbitrary: best bs)
  case Nil
  then show ?case by simp
next
  case (Cons e es)
  show ?case
  proof (cases "candidate h record e")
    case True
    then obtain n where n: "countTemplateFieldHits h (template e) record = Inr n" "0 < n"
      by (auto simp: candidate_def split: sum.splits)
    show ?thesis
    proof (cases "scoreOf h record e > bs")
      case gt: True
      with True Cons.prems
      have "getBestTemplateForRecord_loop h record es (Some (mkResolved e)) (scoreOf h record e)
              = Inr (Some res)"
        by (simp add: loop_step_cand del: getBestTemplateForRecord_loop.simps)
      from Cons.IH [OF this] n show ?thesis by auto
    next
      case False
      with True Cons.prems
      have "getBestTemplateForRecord_loop h record es best bs = Inr (Some res)"
        by (simp add: loop_step_cand del: getBestTemplateForRecord_loop.simps)
      from Cons.IH [OF this] show ?thesis by auto
    qed
  next
    case False
    with Cons.prems
    have "getBestTemplateForRecord_loop h record es best bs = Inr (Some res)"
      by (auto simp: candidate_def split: sum.splits if_splits)
    from Cons.IH [OF this] show ?thesis by auto
  qed
qed

lemma getBest_has_hits:
  assumes "getBestTemplateForRecord h st record = Inr (Some res)"
  shows "\<exists>n. countTemplateFieldHits h (templateObj res) record = Inr n \<and> 0 < n"
proof -
  from assms have "getBestTemplateForRecord_loop h record (templates st) None (- 1) = Inr (Some res)"
    by (auto simp: getBestTemplateForRecord_def split: if_splits)
  from loop_result [OF this] show ?thesis by (auto simp: mkResolved_def)
qed

lemma explicit_resolution:
  assumes "activeTemplateId st = Some i" "i \<noteq> []" "i \<noteq> TEMPLATE_AUTO_ID"
  shows "getTemplateForRecord h st record =
     (case find (\<lambda>t. entryId t = i) (templates st) of
        None \<Rightarrow> Inr None
      | Some e \<Rightarrow>
          bindE (templateMatchesRecord h (template e) record) (\<lambda>m.
            Inr (if m then Some (mkResolved e) else None)))"
  using assms
  by (auto simp: getTemplateForRecord_def getExplicitActiveTemplate_def mkResolved_def bindE_def
      split: option.splits sum.splits)


















section \<open>Templates without fields\<close>

lemma validateSections_empty_fields:
  "list_all (\<lambda>sec. \<not> notPlainObject sec \<and> \<not> notNonEmptyString (own_prop sec ''section'') \<and>
                  own_prop sec ''fields'' = JArr []) layout \<Longrightarrow>
   validateSections si layout = None"
  by (induction layout arbitrary: si) simp_all

lemma blockWellTyped_checks:
  "blockWellTyped b k \<Longrightarrow>
   \<not> (\<not> nullish b \<and> (typeof b \<noteq> Ty_object \<or> isArray b)) \<and>
   \<not> (\<not> nullish b \<and> \<not> nullish (own_prop b k) \<and> \<not> isArray (own_prop b k))"
  by (auto simp: blockWellTyped_def isMapping_def)

lemma validate_empty_fields:
  assumes "\<not> notPlainObject t" and "own_prop t ''templateVersion'' = JNum 1"
    and "\<not> notNonEmptyString (own_prop t ''templateName'')"
    and "own_prop t ''layout'' = JArr layout"
    and "list_all (\<lambda>sec. \<not> notPlainObject sec \<and> \<not> notNonEmptyString (own_prop sec ''section'') \<and>
                  own_prop sec ''fields'' = JArr []) layout"
    and "blockWellTyped (own_prop t ''match'') ''requiredKeys''"
    and "blockWellTyped (own_prop t ''recordLabel'') ''fields''"
  shows "validateTemplate t = valid"
  using assms(1-4) validateSections_empty_fields [OF assms(5), of 0]
    blockWellTyped_checks [OF assms(6)] blockWellTyped_checks [OF assms(7)]
  by (auto simp: validateTemplate_def Let_def)

text \<open>
  What holds of a template whose sections all declare the empty \<^verbatim>\<open>fields\<close> array. It passes
  validation (given what validation asks of the rest: version 1, a name, named sections,
  well-typed optional blocks). Its field-hit count is 0 for every record. Auto selection never
  returns it. Selected explicitly, for a record it matches, it is resolved, and it is never
  rendered as a list of section cards: the renderer returns the card "No fields from this
  template were found" exactly when the rendering of the record returns, which it does for
  every record in which no object has a key \<^verbatim>\<open>toString\<close>; a TypeError thrown while the record
  is rendered leaves the renderer in place of the card.
\<close>

lemma empty_fields_template_parts:
  "(\<not> notPlainObject t \<and> own_prop t ''templateVersion'' = JNum 1 \<and>
    \<not> notNonEmptyString (own_prop t ''templateName'') \<and> own_prop t ''layout'' = JArr layout \<and>
    list_all (\<lambda>sec. \<not> notPlainObject sec \<and> \<not> notNonEmptyString (own_prop sec ''section'') \<and>
                    own_prop sec ''fields'' = JArr []) layout \<and>
    blockWellTyped (own_prop t ''match'') ''requiredKeys'' \<and>
    blockWellTyped (own_prop t ''recordLabel'') ''fields'' \<longrightarrow>
      validateTemplate t = valid \<and> allFieldsEmpty t) \<and>
   (allFieldsEmpty t \<longrightarrow> countTemplateFieldHits h t record = Inr 0) \<and>
   (allFieldsEmpty t \<longrightarrow>
      (\<forall>res. getBestTemplateForRecord h st record = Inr (Some res) \<longrightarrow> templateObj res \<noteq> t)) \<and>
   (allFieldsEmpty t \<and> activeTemplateId st = Some i \<and> i \<noteq> [] \<and> i \<noteq> TEMPLATE_AUTO_ID \<and>
    find (\<lambda>x. entryId x = i) (templates st) = Some e \<and> template e = t \<and>
    templateMatchesRecord h t record = Inr True \<longrightarrow>
      getTemplateForRecord h st record = Inr (Some \<lparr>entry = e, templateObj = t\<rparr>) \<and>
      renderRecordView h srt rtf rgp rit recordType record t =
        (case renderKV srt ''Record'' record collapsibleOpts of
           Inl err \<Rightarrow> Inl TypeError
         | Inr row \<Rightarrow> Inr (noFieldsCard (tplNameOf t) row)) \<and>
      (\<forall>cards. renderRecordView h srt rtf rgp rit recordType record t \<noteq>
                 Inr (SectionCards cards)) \<and>
      (noToStringKey record \<longrightarrow>
         (\<exists>row. renderRecordView h srt rtf rgp rit recordType record t =
                  Inr (noFieldsCard (tplNameOf t) row))))"
proof -
  have p1: "\<not> notPlainObject t \<and> own_prop t ''templateVersion'' = JNum 1 \<and>
    \<not> notNonEmptyString (own_prop t ''templateName'') \<and> own_prop t ''layout'' = JArr layout \<and>
    list_all (\<lambda>sec. \<not> notPlainObject sec \<and> \<not> notNonEmptyString (own_prop sec ''section'') \<and>
                    own_prop sec ''fields'' = JArr []) layout \<and>
    blockWellTyped (own_prop t ''match'') ''requiredKeys'' \<and>
    blockWellTyped (own_prop t ''recordLabel'') ''fields'' \<longrightarrow>
      validateTemplate t = valid \<and> allFieldsEmpty t"
  proof
    assume as: "\<not> notPlainObject t \<and> own_prop t ''templateVersion'' = JNum 1 \<and>
      \<not> notNonEmptyString (own_prop t ''templateName'') \<and> own_prop t ''layout'' = JArr layout \<and>
      list_all (\<lambda>sec. \<not> notPlainObject sec \<and> \<not> notNonEmptyString (own_prop sec ''section'') \<and>
                      own_prop sec ''fields'' = JArr []) layout \<and>
      blockWellTyped (own_prop t ''match'') ''requiredKeys'' \<and>
      blockWellTyped (own_prop t ''recordLabel'') ''fields''"
    then have "validateTemplate t = valid" by (intro validate_empty_fields) blast+
    moreover from as have "allFieldsEmpty t" by (simp add: allFieldsEmpty_def list_all_iff)
    ultimately show "validateTemplate t = valid \<and> allFieldsEmpty t" by simp
  qed
  have p2: "allFieldsEmpty t \<longrightarrow> countTemplateFieldHits h t record = Inr 0"
    by (simp add: allFieldsEmpty_no_hits)
  have p3: "allFieldsEmpty t \<longrightarrow>
      (\<forall>res. getBestTemplateForRecord h st record = Inr (Some res) \<longrightarrow> templateObj res \<noteq> t)"
  proof (intro impI allI notI)
    fix res
    assume e: "allFieldsEmpty t" and b: "getBestTemplateForRecord h st record = Inr (Some res)"
      and eq: "templateObj res = t"
    from getBest_has_hits [OF b] eq obtain n
      where "countTemplateFieldHits h t record = Inr n" "0 < n" by auto
    with allFieldsEmpty_no_hits [OF e, of h "record"] show False by simp
  qed
  have p4: "allFieldsEmpty t \<and> activeTemplateId st = Some i \<and> i \<noteq> [] \<and> i \<noteq> TEMPLATE_AUTO_ID \<and>
    find (\<lambda>x. entryId x = i) (templates st) = Some e \<and> template e = t \<and>
    templateMatchesRecord h t record = Inr True \<longrightarrow>
      getTemplateForRecord h st record = Inr (Some \<lparr>entry = e, templateObj = t\<rparr>) \<and>
      renderRecordView h srt rtf rgp rit recordType record t =
        (case renderKV srt ''Record'' record collapsibleOpts of
           Inl err \<Rightarrow> Inl TypeError
         | Inr row \<Rightarrow> Inr (noFieldsCard (tplNameOf t) row)) \<and>
      (\<forall>cards. renderRecordView h srt rtf rgp rit recordType record t \<noteq>
                 Inr (SectionCards cards)) \<and>
      (noToStringKey record \<longrightarrow>
         (\<exists>row. renderRecordView h srt rtf rgp rit recordType record t =
                  Inr (noFieldsCard (tplNameOf t) row)))"
  proof
    assume as: "allFieldsEmpty t \<and> activeTemplateId st = Some i \<and> i \<noteq> [] \<and>
      i \<noteq> TEMPLATE_AUTO_ID \<and> find (\<lambda>x. entryId x = i) (templates st) = Some e \<and>
      template e = t \<and> templateMatchesRecord h t record = Inr True"
    then have r: "getTemplateForRecord h st record = Inr (Some \<lparr>entry = e, templateObj = t\<rparr>)"
      by (simp add: explicit_resolution bindE_def mkResolved_def)
    from as have ol: "isObjectLike t"
      by (auto simp: templateMatchesRecord_def split: if_splits)
    from as obtain layout' where l: "own_prop t ''layout'' = JArr layout'"
      using allFieldsEmpty_layout by blast
    from as have z: "countTemplateFieldHits h t record = Inr 0"
      by (simp add: allFieldsEmpty_no_hits)
    have "renderTemplateRecordView h srt rtf rgp t record =
        (case renderKV srt ''Record'' record collapsibleOpts of
           Inl err \<Rightarrow> Inl err
         | Inr row \<Rightarrow> Inr (noFieldsCard (tplNameOf t) row))"
      using ol l z by (rule zero_hits_card)
    with ol have v: "renderRecordView h srt rtf rgp rit recordType record t =
        (case renderKV srt ''Record'' record collapsibleOpts of
           Inl err \<Rightarrow> Inl err
         | Inr row \<Rightarrow> Inr (noFieldsCard (tplNameOf t) row))"
      by (simp add: renderRecordView_def isObjectLike_truthy)
    have v1: "renderRecordView h srt rtf rgp rit recordType record t =
        (case renderKV srt ''Record'' record collapsibleOpts of
           Inl err \<Rightarrow> Inl TypeError
         | Inr row \<Rightarrow> Inr (noFieldsCard (tplNameOf t) row))"
    proof (cases "renderKV srt ''Record'' record collapsibleOpts")
      case (Inl err)
      then show ?thesis unfolding v by (cases err) simp
    next
      case (Inr row)
      then show ?thesis unfolding v by simp
    qed
    have v2: "\<forall>cards. renderRecordView h srt rtf rgp rit recordType record t \<noteq>
                 Inr (SectionCards cards)"
      unfolding v
      by (cases "renderKV srt ''Record'' record collapsibleOpts") (simp_all add: noFieldsCard_def)
    have v3: "noToStringKey record \<longrightarrow>
         (\<exists>row. renderRecordView h srt rtf rgp rit recordType record t =
                  Inr (noFieldsCard (tplNameOf t) row))"
    proof
      assume "noToStringKey record"
      then obtain row where "renderKV srt ''Record'' record collapsibleOpts = Inr row"
        using render_safe(2) by blast
      with v show "\<exists>row. renderRecordView h srt rtf rgp rit recordType record t =
                  Inr (noFieldsCard (tplNameOf t) row)"
        by auto
    qed
    from r v1 v2 v3
    show "getTemplateForRecord h st record = Inr (Some \<lparr>entry = e, templateObj = t\<rparr>) \<and>
      renderRecordView h srt rtf rgp rit recordType record t =
        (case renderKV srt ''Record'' record collapsibleOpts of
           Inl err \<Rightarrow> Inl TypeError
         | Inr row \<Rightarrow> Inr (noFieldsCard (tplNameOf t) row)) \<and>
      (\<forall>cards. renderRecordView h srt rtf rgp rit recordType record t \<noteq>
                 Inr (SectionCards cards)) \<and>
      (noToStringKey record \<longrightarrow>
         (\<exists>row. renderRecordView h srt rtf rgp rit recordType record t =
                  Inr (noFieldsCard (tplNameOf t) row)))"
      by blast
  qed
  from p1 p2 p3 p4 show ?thesis by blast
qed

text \<open>
  C10. The claim holds up to its last part, which fails for the program at the document
  \<^verbatim>\<open>{"rows":[{"Id":{"toString":1}}]}\<close>. The template without fields is valid, has no hit, is
  not what Auto selection returns, matches the document and is resolved by the explicit
  selection; rendering then throws the TypeError of \<^verbatim>\<open>String(id)\<close> (\<^verbatim>\<open>buildItemSummary\<close>,
  app.js 3144) where the claim promises the card. For the sample record the card is returned.
\<close>

theorem empty_fields_template_throws:
  "countTemplateFieldHits bare sampleTemplateEmpty sampleHostileRecord = Inr 0 \<and>
   getBestTemplateForRecord bare (sampleState (Some TEMPLATE_AUTO_ID)) sampleHostileRecord =
     Inr None \<and>
   getTemplateForRecord bare (sampleState (Some ''e'')) sampleHostileRecord =
     Inr (Some (mkResolved (sampleEntry ''e'' sampleTemplateEmpty))) \<and>
   renderRecordView bare (\<lambda>ks. ks) (\<lambda>r f. Inr []) (\<lambda>r. Inr []) (\<lambda>r. Inr []) Generic
     sampleHostileRecord sampleTemplateEmpty = Inl TypeError \<and>
   getTemplateForRecord bare (sampleState (Some ''e'')) sampleRecord =
     Inr (Some (mkResolved (sampleEntry ''e'' sampleTemplateEmpty))) \<and>
   renderRecordView bare (\<lambda>ks. ks) (\<lambda>r f. Inr []) (\<lambda>r. Inr []) (\<lambda>r. Inr []) Generic
     sampleRecord sampleTemplateEmpty =
     Inr (noFieldsCard ''Empty''
       (Some (KvRow ''Record'' (ValueObject 3
         [KvRow ''Title'' (EscapedText ''T''),
          KvRow ''Status'' (ValueObject 1 [KvRow ''Name'' (EscapedText ''Open'')]),
          KvRow ''Items'' (ValueArray 1
            [ArrayMeta 1 1,
             ArrayItemCard [IndexBit 0, TitleBit ''Window detail'']
               [KvRow ''Title'' (EscapedText ''Window detail'')]])]))))"
  by code_simp

text \<open>The template of that evaluation is valid and matches the document.\<close>

lemma sampleTemplateEmpty_hostile:
  "validateTemplate sampleTemplateEmpty = valid"
  "templateMatchesRecord bare sampleTemplateEmpty sampleHostileRecord = Inr True"
  "records (extractRecords sampleHostileRecord) = [sampleHostileRecord]"
  by code_simp+

section \<open>The kvlist format\<close>

text \<open>
  What holds of the rows of \<^verbatim>\<open>renderKvListValue\<close> for every array and every configuration: an
  item whose label resolves to nothing is skipped, every row has a non-empty label and a
  non-blank text, and there are at most \<open>max 1 maxItems\<close> rows (6 when \<^verbatim>\<open>maxItems\<close> is not a
  number).
\<close>

lemma kvRow_Some:
  "kvRow h itemKeyPath valuePaths item = Inr (Some r) \<Longrightarrow> fst r \<noteq> [] \<and> trim (snd r) \<noteq> []"
  by (auto simp: kvRow_def bindE_def split: if_splits sum.splits)

lemma kvRow_empty_label:
  "kvKey h item itemKeyPath = Inr [] \<Longrightarrow> kvRow h itemKeyPath valuePaths item = Inr None"
  by (simp add: kvRow_def bindE_def)

lemma kvLoop_rows:
  "kvLoop h itemKeyPath valuePaths maxItems items rows = Inr out \<Longrightarrow>
   int (length rows) < maxItems \<Longrightarrow>
   \<forall>r \<in> set rows. fst r \<noteq> [] \<and> trim (snd r) \<noteq> [] \<Longrightarrow>
   int (length out) \<le> maxItems \<and> (\<forall>r \<in> set out. fst r \<noteq> [] \<and> trim (snd r) \<noteq> [])"
proof (induction items arbitrary: rows)
  case Nil
  then show ?case by auto
next
  case (Cons item items)
  show ?case
  proof (cases "kvRow h itemKeyPath valuePaths item")
    case (Inl e)
    with Cons.prems show ?thesis by simp
  next
    case (Inr ro)
    show ?thesis
    proof (cases ro)
      case None
      with Inr Cons.prems have "kvLoop h itemKeyPath valuePaths maxItems items rows = Inr out"
        by simp
      from Cons.IH [OF this Cons.prems(2,3)] show ?thesis .
    next
      case (Some r)
      with Inr have ok: "fst r \<noteq> [] \<and> trim (snd r) \<noteq> []" using kvRow_Some by blast
      with Cons.prems(3) have all: "\<forall>x \<in> set (rows @ [r]). fst x \<noteq> [] \<and> trim (snd x) \<noteq> []"
        by auto
      show ?thesis
      proof (cases "int (length (rows @ [r])) \<ge> maxItems")
        case True
        with Inr Some Cons.prems(1) have "out = rows @ [r]" by simp
        with all Cons.prems(2) show ?thesis by auto
      next
        case False
        with Inr Some Cons.prems(1)
        have "kvLoop h itemKeyPath valuePaths maxItems items (rows @ [r]) = Inr out" by simp
        moreover from False have "int (length (rows @ [r])) < maxItems" by simp
        ultimately show ?thesis using all by (rule Cons.IH)
      qed
    qed
  qed
qed

lemma kvMaxItems_bounds: "1 \<le> kvMaxItems c"
  by (cases "own_prop c ''maxItems''") (simp_all add: kvMaxItems_def)

lemma kvMaxItems_default: "typeof (own_prop c ''maxItems'') \<noteq> Ty_number \<Longrightarrow> kvMaxItems c = 6"
  by (cases "own_prop c ''maxItems''") (simp_all add: kvMaxItems_def)

lemma renderKvListValue_rows:
  assumes "renderKvListValue h arrValue cfg = Inr out"
  shows "int (length out) \<le> kvMaxItems (orElse cfg (JObj [])) \<and>
         (\<forall>r \<in> set out. fst r \<noteq> [] \<and> trim (snd r) \<noteq> [])"
proof (cases arrValue)
  case (JArr items)
  show ?thesis
  proof (cases "items = []")
    case True
    with JArr assms have "out = []" by (simp add: renderKvListValue_def)
    then show ?thesis using kvMaxItems_bounds [of "orElse cfg (JObj [])"] by simp
  next
    case False
    with JArr assms obtain ikp vps where
      "kvLoop h ikp vps (kvMaxItems (orElse cfg (JObj []))) items [] = Inr out"
      by (auto simp: renderKvListValue_def Let_def bindE_def split: sum.splits)
    from kvLoop_rows [OF this] kvMaxItems_bounds [of "orElse cfg (JObj [])"]
    show ?thesis by simp
  qed
qed (use assms kvMaxItems_bounds [of "orElse cfg (JObj [])"] in
      \<open>auto simp: renderKvListValue_def\<close>)

text \<open>
  C3. The claim holds of the declaration of lines 2590-2676 and fails for the program: the
  declaration of lines 2690-2755 replaces it and has no \<^verbatim>\<open>showEmpty\<close>. For the attribute list
  \<^verbatim>\<open>[{"Name":"Color"}]\<close> and a field configuration with \<^verbatim>\<open>showEmpty: true\<close>, the program produces
  no row where the earlier declaration produces the row (Color, (empty)); the field then counts
  as no hit, and a template made of this field alone renders as the card
  "No fields from this template were found".
\<close>

theorem kvlist_showEmpty_not_honoured:
  "renderKvListValue bare (JArr [JObj [(''Name'', JStr ''Color'')]]) sampleKvField = Inr [] \<and>
   renderKvListValue_2590 bare (JArr [JObj [(''Name'', JStr ''Color'')]]) sampleKvField =
     Inr [(''Color'', ''(empty)'')] \<and>
   countTemplateFieldHits bare sampleKvTemplate sampleKvRecord = Inr 0 \<and>
   renderTemplateRecordView bare (\<lambda>ks. ks) (\<lambda>r f. Inr ''row'') (\<lambda>r. Inr []) sampleKvTemplate
     sampleKvRecord =
     Inr (noFieldsCard ''Attributes''
       (Some (KvRow ''Record'' (ValueObject 1
         [KvRow ''Attrs'' (ValueArray 1
            [ArrayMeta 1 1,
             ArrayItemCard [IndexBit 0, TitleBit ''Color'']
               [KvRow ''Name'' (EscapedText ''Color'')]])]))))"
  by code_simp

section \<open>Dataset detection\<close>

lemma dataset_components:
  fixes sample :: "jv list"
  defines "keySets \<equiv> map object_keys sample"
  defines "allKeys \<equiv> remdups (concat keySets)"
  shows "length allKeys = card (observedKeys sample)"
    and "length (filter (\<lambda>k.
            (of_nat (length (filter (\<lambda>s. k \<in> set s) keySets)) :: rat)
              / of_nat (length keySets) \<ge> 6 / 10) allKeys) = card (commonKeys sample)"
    and "card (observedKeys sample) \<noteq> 0 \<Longrightarrow> totalFields sample \<noteq> 0"
proof -
  have s: "set allKeys = observedKeys sample"
    by (auto simp: allKeys_def keySets_def observedKeys_def)
  have d: "distinct allKeys" by (simp add: allKeys_def)
  from s d show "length allKeys = card (observedKeys sample)"
    using distinct_card by fastforce
  have p: "length (filter (\<lambda>s. k \<in> set s) keySets) = keyPresence sample k" for k
    by (simp add: keySets_def keyPresence_def filter_map comp_def)
  have lk: "length keySets = length sample" by (simp add: keySets_def)
  have sixty: "(6 / 10 :: rat) = 60 / 100" by simp
  have "length (filter (\<lambda>k. (of_nat (keyPresence sample k) :: rat) / of_nat (length sample)
            \<ge> 60 / 100) allKeys)
        = card ({k. (of_nat (keyPresence sample k) :: rat) / of_nat (length sample) \<ge> 60 / 100}
                \<inter> set allKeys)"
    using d by (rule distinct_length_filter)
  also have "{k. (of_nat (keyPresence sample k) :: rat) / of_nat (length sample) \<ge> 60 / 100}
                \<inter> set allKeys = commonKeys sample"
    unfolding s commonKeys_def by blast
  finally show "length (filter (\<lambda>k.
            (of_nat (length (filter (\<lambda>s. k \<in> set s) keySets)) :: rat)
              / of_nat (length keySets) \<ge> 6 / 10) allKeys) = card (commonKeys sample)"
    by (simp only: p lk sixty)
  show "totalFields sample \<noteq> 0" if "card (observedKeys sample) \<noteq> 0"
  proof -
    from that have "observedKeys sample \<noteq> {}" by auto
    then obtain k where "k \<in> observedKeys sample" by blast
    then obtain ob where "ob \<in> set sample" "k \<in> set (object_keys ob)"
      by (auto simp: observedKeys_def)
    then have "ob \<in> set sample" "length (object_keys ob) \<noteq> 0" by auto
    then show ?thesis by (auto simp: totalFields_def sum_list_eq_0_iff)
  qed
qed

lemma isLargeFlatArrayDataset_unfold:
  "isLargeFlatArrayDataset (JArr xs) =
     (if length xs < 80 then False
      else if length (datasetSample xs) < 10 then False
      else if card (observedKeys (datasetSample xs)) = 0 then False
      else (of_nat (card (commonKeys (datasetSample xs))) :: rat)
              / of_nat (card (observedKeys (datasetSample xs))) \<ge> 25 / 100 \<and>
           (if totalFields (datasetSample xs) \<noteq> 0
            then (of_nat (nestedFields (datasetSample xs)) :: rat)
                   / of_nat (totalFields (datasetSample xs))
            else 1) \<le> 25 / 100)"
  apply (simp only: isLargeFlatArrayDataset_def Let_def jv.case
      flip: totalFields_def nestedFields_def datasetSample_def)
  apply (simp only: dataset_components(1,2) [of "datasetSample xs"])
  done

lemma isLargeFlatArrayDataset_spec: "isLargeFlatArrayDataset json = isDatasetSpec json"
proof (cases json)
  case (JArr xs)
  define S where "S = datasetSample xs"
  show ?thesis
  proof (cases "card (observedKeys S) = 0")
    case True
    then show ?thesis
      unfolding JArr isLargeFlatArrayDataset_unfold isDatasetSpec_def jv.case S_def [symmetric]
      by simp
  next
    case False
    then have "totalFields S \<noteq> 0" by (rule dataset_components(3))
    with False show ?thesis
      unfolding JArr isLargeFlatArrayDataset_unfold isDatasetSpec_def jv.case S_def [symmetric]
      by (simp add: not_less)
  qed
qed (simp_all add: isLargeFlatArrayDataset_def isDatasetSpec_def)

lemma short_array_not_dataset: "length xs < 80 \<Longrightarrow> \<not> isLargeFlatArrayDataset (JArr xs)"
  by (simp add: isLargeFlatArrayDataset_def)

lemma sample_rows_dataset:
  "isLargeFlatArrayDataset (JArr (sampleRows 100))"
  "\<not> isLargeFlatArrayDataset (JArr (sampleRows 50))"
  by code_simp+

lemma sample_rows_facts:
  "length (sampleRows 100) = 100"
  "length (datasetSample (sampleRows 100)) = 25"
  "card (observedKeys (datasetSample (sampleRows 100))) = 10"
  "card (commonKeys (datasetSample (sampleRows 100))) = 8"
  "nestedFields (datasetSample (sampleRows 100)) = 25"
  "totalFields (datasetSample (sampleRows 100)) = 225"
  by code_simp+

text \<open>
  C8. An array is classified as a dataset exactly when its length is at least 80, its sample (the
  first 25 mapping-typed elements) has at least 10 elements, the ratio of common keys to observed
  keys is at least 0.25 and the ratio of nested fields to fields is at most 0.25. A value that is
  not an array is never a dataset, and neither is an array shorter than 80. The 100 sample rows
  (8 common keys of 10 observed, 25 nested fields of 225) are a dataset; the same rows cut to 50
  are not.
\<close>

theorem dataset_detection:
  "isLargeFlatArrayDataset json = isDatasetSpec json \<and>
   (\<not> isArray json \<longrightarrow> \<not> isLargeFlatArrayDataset json) \<and>
   (length xs < 80 \<longrightarrow> \<not> isLargeFlatArrayDataset (JArr xs)) \<and>
   isLargeFlatArrayDataset (JArr (sampleRows 100)) \<and>
   \<not> isLargeFlatArrayDataset (JArr (sampleRows 50))"
proof -
  have "\<not> isArray json \<longrightarrow> \<not> isLargeFlatArrayDataset json"
    by (cases json) (simp_all add: isLargeFlatArrayDataset_def)
  with isLargeFlatArrayDataset_spec [of json] short_array_not_dataset [of xs]
    sample_rows_dataset
  show ?thesis by blast
qed

theorem dataset_detection_witness:
  "isDatasetSpec (JArr (sampleRows 100)) \<and>
   card (commonKeys (datasetSample (sampleRows 100))) = 8 \<and>
   card (observedKeys (datasetSample (sampleRows 100))) = 10 \<and>
   nestedFields (datasetSample (sampleRows 100)) = 25 \<and>
   totalFields (datasetSample (sampleRows 100)) = 225 \<and>
   \<not> isDatasetSpec (JArr (sampleRows 50)) \<and>
   \<not> isLargeFlatArrayDataset (JArr (replicate 50 sampleRowA)) \<and>
   \<not> isLargeFlatArrayDataset (JStr ''rows'')"
proof -
  have 1: "isDatasetSpec (JArr (sampleRows 100))"
    using dataset_detection [of "JArr (sampleRows 100)"] by blast
  have 2: "\<not> isDatasetSpec (JArr (sampleRows 50))"
    using dataset_detection [of "JArr (sampleRows 50)"] by blast
  have "length (replicate 50 sampleRowA) < 80" by simp
  then have 3: "\<not> isLargeFlatArrayDataset (JArr (replicate 50 sampleRowA))"
    using dataset_detection [of JNull "replicate 50 sampleRowA"] by blast
  have "\<not> isArray (JStr ''rows'')" by simp
  then have 4: "\<not> isLargeFlatArrayDataset (JStr ''rows'')"
    using dataset_detection [of "JStr ''rows''"] by blast
  from 1 2 3 4 sample_rows_facts show ?thesis by simp
qed

end
